theory Spec2Isabelle
  imports Main "HOL-Library.Word" "HOL-Library.Sublist"
begin

section \<open>Strings\<close>

text \<open>
  A JavaScript string is a sequence of UTF-16 code units. String literals of the source
  are written \<open>js ''...''\<close>.
\<close>

type_synonym code_unit = "16 word"
type_synonym js_string = "code_unit list"

definition js :: "string \<Rightarrow> js_string" where
  "js s = map of_char s"

text \<open>
  \<open>String.prototype.trim\<close> strips the code units of the ECMAScript productions WhiteSpace
  and LineTerminator from both ends. A string is falsy exactly when it is empty, so
  \<open>!text.trim()\<close> of the source is \<open>trim text = []\<close>.
\<close>

definition is_white_space :: "code_unit \<Rightarrow> bool" where
  "is_white_space c \<longleftrightarrow> c \<in> set [0x0009, 0x000A, 0x000B, 0x000C, 0x000D, 0x0020, 0x00A0,
     0x1680, 0x2000, 0x2001, 0x2002, 0x2003, 0x2004, 0x2005, 0x2006, 0x2007, 0x2008,
     0x2009, 0x200A, 0x2028, 0x2029, 0x202F, 0x205F, 0x3000, 0xFEFF]"

definition trim :: "js_string \<Rightarrow> js_string" where
  "trim s = rev (dropWhile is_white_space (rev (dropWhile is_white_space s)))"

section \<open>JSON values and the platform\<close>

text \<open>
  The values \<open>JSON.parse\<close> can return. Numbers are the integral ones (the only numbers
  this program writes are millisecond timestamps). An object is its list of key/value
  pairs, read with \<open>map_of\<close>.
\<close>

datatype json =
    JNull
  | JBool bool
  | JNumber int
  | JString js_string
  | JArray "json list"
  | JObject "(js_string \<times> json) list"

text \<open>
  \<open>JSON.parse\<close> and \<open>JSON.stringify\<close> are built into the platform and are parameters
  of the model; \<open>JSON_parse p t = None\<close> is the \<open>SyntaxError\<close> thrown on a text that
  is not JSON.
\<close>

record platform =
  JSON_parse :: "js_string \<Rightarrow> json option"
  JSON_stringify :: "json \<Rightarrow> js_string"

text \<open>
  Reading a property of a parsed value: \<open>None\<close> is \<open>undefined\<close>. Only objects carry
  properties named by this program; reading a property of \<open>null\<close> throws and is handled
  where it occurs.
\<close>

definition get_prop :: "json \<Rightarrow> js_string \<Rightarrow> json option" where
  "get_prop v k = (case v of JObject kvs \<Rightarrow> map_of kvs k | _ \<Rightarrow> None)"

text \<open>\<open>v || d\<close> for a \<open>v\<close> that is a string or \<open>undefined\<close>: both \<open>undefined\<close> and the
  empty string are falsy.\<close>

definition or_default :: "js_string option \<Rightarrow> js_string \<Rightarrow> js_string" where
  "or_default v d = (case v of None \<Rightarrow> d | Some u \<Rightarrow> if u = [] then d else u)"

section \<open>types.ts\<close>

text \<open>
  \<open>TranslationResult\<close> declares \<open>translatedText: string\<close> and
  \<open>detectedLanguage?: string\<close>. What \<open>translateText\<close> really puts there is whatever the
  parsed payload holds, so the two field types are parameters of the record.
  \<open>HistoryItem\<close> extends it at the declared types.
\<close>

record ('t, 'd) TranslationResult =
  translatedText :: 't
  detectedLanguage :: 'd
  sourceLanguage :: js_string
  targetLanguage :: js_string

record HistoryItem = "(js_string, js_string option) TranslationResult" +
  item_id :: js_string
  timestamp :: int

text \<open>
  What a \<open>catch (err: any)\<close> can read of a value that is neither \<open>null\<close> nor
  \<open>undefined\<close>: its \<open>name\<close> and \<open>message\<close> properties, each a string or
  \<open>undefined\<close> as the interface \<open>Error\<close> declares them.
\<close>

record js_error =
  err_name :: "js_string option"
  err_message :: "js_string option"

text \<open>
  The value a rejected call throws. It may be \<open>null\<close> or \<open>undefined\<close>; reading a
  property of such a value throws a \<open>TypeError\<close>.
\<close>

datatype thrown_value = Nullish | Value js_error

datatype thrown = SyntaxError | TypeError | Rejected thrown_value

section \<open>geminiService.ts: the translation client\<close>

definition stream_prompt :: "js_string \<Rightarrow> js_string \<Rightarrow> js_string \<Rightarrow> js_string" where
  "stream_prompt text sourceLang targetLang =
     js ''Translate this text from ''
     @ (if sourceLang = js ''auto'' then js ''automatically detected language'' else sourceLang)
     @ js '' to '' @ targetLang @ js '':'' @ [0x0A] @ js ''  '' @ [0x0A] @ js ''  ''
     @ [0x22] @ text @ [0x22]"

definition translate_prompt :: "js_string \<Rightarrow> js_string \<Rightarrow> js_string \<Rightarrow> js_string" where
  "translate_prompt text sourceLang targetLang =
     js ''Translate the following text into '' @ targetLang @ js ''. '' @ [0x0A]
     @ js ''  Source language: ''
     @ (if sourceLang = js ''auto'' then js ''Detect automatically'' else sourceLang)
     @ js ''.'' @ [0x0A] @ js ''  Text to translate: '' @ [0x22] @ text @ [0x22]"

text \<open>
  The remote service answers the request of \<open>translateText\<close> with a rejection or with a
  response whose \<open>text\<close> getter yields a string or \<open>undefined\<close>.
\<close>

datatype reply = Fails thrown_value | Response "js_string option"

text \<open>
  \<open>translateText\<close>: \<open>JSON.parse(response.text || '{}')\<close>, then the two properties are
  copied into the result as they are found. There is no check of the parsed value
  against the response schema sent with the request.
\<close>

definition translateText ::
  "platform \<Rightarrow> (js_string \<Rightarrow> reply) \<Rightarrow> js_string \<Rightarrow> js_string \<Rightarrow> js_string
     \<Rightarrow> thrown + (json option, json option) TranslationResult" where
  "translateText p generateContent text sourceLang targetLang =
     (case generateContent (translate_prompt text sourceLang targetLang) of
        Fails e \<Rightarrow> Inl (Rejected e)
      | Response t \<Rightarrow>
          (case JSON_parse p (or_default t (js ''{}'')) of
             None \<Rightarrow> Inl SyntaxError
           | Some JNull \<Rightarrow> Inl TypeError
           | Some result \<Rightarrow>
               Inr \<lparr> translatedText = get_prop result (js ''translatedText''),
                     detectedLanguage = get_prop result (js ''detectedLanguage''),
                     sourceLanguage = sourceLang,
                     targetLanguage = targetLang \<rparr>))"

section \<open>App.tsx: state\<close>

text \<open>A pending \<open>setTimeout\<close> callback \<open>() => performTranslation(inputText)\<close>: its
  deadline and the values the closure captured at the render that scheduled it.\<close>

record timer =
  deadline :: nat
  cb_text :: js_string
  cb_source :: js_string
  cb_target :: js_string

text \<open>One call of \<open>translateTextStream\<close> as the client received it.\<close>

record stream_call =
  call_text :: js_string
  call_source :: js_string
  call_target :: js_string
  call_contents :: js_string

text \<open>A running invocation of \<open>performTranslation\<close>, suspended at its \<open>await\<close>: the
  captured arguments and the local variable \<open>fullText\<close>.\<close>

record invocation =
  inv_text :: js_string
  inv_source :: js_string
  inv_target :: js_string
  fullText :: js_string

text \<open>
  The component's state variables and refs, followed by the part of the browser the
  component acts on: whether the debounce effect has a cleanup registered, the timer
  clock, the pending timers in the order they were scheduled (all with the same delay, so
  in deadline order), the invocations awaiting their stream, the log of stream calls
  issued, \<open>localStorage\<close>, the console, and the rejections of promises that nothing
  handles (the timer callback drops the promise \<open>performTranslation\<close> returns).
\<close>

record state =
  inputText :: js_string
  translatedText_state :: js_string
  sourceLang :: js_string
  targetLang :: js_string
  isTranslating :: bool
  history :: "HistoryItem list"
  error :: "js_string option"
  abortControllerRef :: "nat option"
  translationIdRef :: "js_string option"
  cleanup :: bool
  clock :: nat
  timers :: "(nat \<times> timer) list"
  next_timer :: nat
  streams :: "nat \<rightharpoonup> invocation"
  next_stream :: nat
  calls :: "stream_call list"
  localStorage :: "js_string \<rightharpoonup> js_string"
  console :: "js_string list"
  unhandled :: "thrown list"

definition history_key :: js_string where
  "history_key = js ''translation_history''"

definition App_init :: "(js_string \<rightharpoonup> js_string) \<Rightarrow> state" where
  "App_init stored =
     \<lparr> inputText = [], translatedText_state = [], sourceLang = js ''auto'',
       targetLang = js ''es'', isTranslating = False, history = [], error = None,
       abortControllerRef = None, translationIdRef = None,
       cleanup = False, clock = 0, timers = [], next_timer = 1,
       streams = Map.empty, next_stream = 0, calls = [],
       localStorage = stored, console = [], unhandled = [] \<rparr>"

section \<open>App.tsx: the history cache\<close>

text \<open>The JSON form of a history list, and the reading of a parsed value at the declared
  type \<open>HistoryItem[]\<close> (\<open>None\<close> when the value does not have that type).\<close>

definition json_of_item :: "HistoryItem \<Rightarrow> json" where
  "json_of_item h =
     JObject ([(js ''id'', JString (item_id h)),
               (js ''timestamp'', JNumber (timestamp h)),
               (js ''sourceLanguage'', JString (sourceLanguage h)),
               (js ''targetLanguage'', JString (targetLanguage h)),
               (js ''translatedText'', JString (translatedText h))]
              @ (case detectedLanguage h of None \<Rightarrow> []
                 | Some d \<Rightarrow> [(js ''detectedLanguage'', JString d)]))"

definition json_of_items :: "HistoryItem list \<Rightarrow> json" where
  "json_of_items hs = JArray (map json_of_item hs)"

definition item_of_json :: "json \<Rightarrow> HistoryItem option" where
  "item_of_json v =
     (case (get_prop v (js ''id''), get_prop v (js ''timestamp''), get_prop v (js ''sourceLanguage''),
            get_prop v (js ''targetLanguage''), get_prop v (js ''translatedText'')) of
        (Some (JString i), Some (JNumber n), Some (JString s), Some (JString t),
         Some (JString x)) \<Rightarrow>
          (case get_prop v (js ''detectedLanguage'') of
             None \<Rightarrow> Some \<lparr> translatedText = x, detectedLanguage = None, sourceLanguage = s,
                            targetLanguage = t, item_id = i, timestamp = n \<rparr>
           | Some (JString d) \<Rightarrow>
                     Some \<lparr> translatedText = x, detectedLanguage = Some d, sourceLanguage = s,
                            targetLanguage = t, item_id = i, timestamp = n \<rparr>
           | Some _ \<Rightarrow> None)
      | _ \<Rightarrow> None)"

fun items_of_jsons :: "json list \<Rightarrow> HistoryItem list option" where
  "items_of_jsons [] = Some []"
| "items_of_jsons (v # vs) =
     (case item_of_json v of None \<Rightarrow> None
      | Some h \<Rightarrow> (case items_of_jsons vs of None \<Rightarrow> None | Some hs \<Rightarrow> Some (h # hs)))"

definition items_of_json :: "json \<Rightarrow> HistoryItem list option" where
  "items_of_json v = (case v of JArray vs \<Rightarrow> items_of_jsons vs | _ \<Rightarrow> None)"

text \<open>
  The mount effect that loads the history. A missing key and an empty stored string are
  both falsy and leave the state alone; a text that does not parse is logged; any parsed
  value is stored with \<open>setHistory\<close>, unchecked and untruncated. The state variable is
  declared \<open>HistoryItem[]\<close>: a parsed value of another shape is returned as \<open>Inl\<close>, the
  component then holding a value outside its declared type.
\<close>

definition loadHistory :: "platform \<Rightarrow> state \<Rightarrow> json + state" where
  "loadHistory p s =
     (case localStorage s history_key of
        None \<Rightarrow> Inr s
      | Some saved \<Rightarrow>
          if saved = [] then Inr s
          else (case JSON_parse p saved of
                  None \<Rightarrow> Inr (s\<lparr> console := console s @ [js ''Failed to load history''] \<rparr>)
                | Some v \<Rightarrow>
                    (case items_of_json v of
                       None \<Rightarrow> Inl v
                     | Some hs \<Rightarrow> Inr (s\<lparr> history := hs \<rparr>))))"

text \<open>
  \<open>saveToHistory\<close>; \<open>uuid\<close> is what \<open>crypto.randomUUID()\<close> returned and \<open>tnow\<close> what
  \<open>Date.now()\<close> returned.
\<close>

definition saveToHistory ::
  "platform \<Rightarrow> js_string \<Rightarrow> js_string \<Rightarrow> js_string \<Rightarrow> js_string \<Rightarrow> js_string \<Rightarrow> int
     \<Rightarrow> state \<Rightarrow> state" where
  "saveToHistory p text translated sLang tLang uuid tnow s =
     (if trim translated = [] \<or> trim text = [] then s
      else
        (let prev = history s in
         if (case prev of [] \<Rightarrow> False | head # _ \<Rightarrow> translatedText head = translated) then s
         else
           (let item = \<lparr> translatedText = translated, detectedLanguage = None,
                          sourceLanguage = sLang, targetLanguage = tLang,
                          item_id = uuid, timestamp = tnow \<rparr>;
                newHistory = take 10 (item # prev)
            in s\<lparr> history := newHistory,
                  localStorage := (localStorage s)
                    (history_key \<mapsto> JSON_stringify p (json_of_items newHistory)) \<rparr>)))"

text \<open>The "Clear History" button.\<close>

definition clearHistory :: "state \<Rightarrow> state" where
  "clearHistory s = s\<lparr> history := [], localStorage := (localStorage s)(history_key := None) \<rparr>"

text \<open>One call of \<open>saveToHistory\<close> with what the environment supplied to it.\<close>

record record_op =
  op_text :: js_string
  op_translated :: js_string
  op_source :: js_string
  op_target :: js_string
  op_uuid :: js_string
  op_now :: int

definition record_one :: "platform \<Rightarrow> state \<Rightarrow> record_op \<Rightarrow> state" where
  "record_one p s r =
     saveToHistory p (op_text r) (op_translated r) (op_source r) (op_target r)
       (op_uuid r) (op_now r) s"

definition record_all :: "platform \<Rightarrow> state \<Rightarrow> record_op list \<Rightarrow> state" where
  "record_all p s rs = foldl (record_one p) s rs"

text \<open>The clock readings of a sequence of calls never go back, starting from \<open>t\<close>.\<close>

fun chronological :: "int \<Rightarrow> record_op list \<Rightarrow> bool" where
  "chronological t [] = True"
| "chronological t (r # rs) = (t \<le> op_now r \<and> chronological (op_now r) rs)"

text \<open>Most recent first: no entry is older than one behind it, none is newer than \<open>t\<close>.\<close>

definition newest_first :: "int \<Rightarrow> HistoryItem list \<Rightarrow> bool" where
  "newest_first t hs \<longleftrightarrow>
     sorted_wrt (\<lambda>a b. timestamp b \<le> timestamp a) hs \<and> list_all (\<lambda>h. timestamp h \<le> t) hs"

section \<open>App.tsx: handlers\<close>

definition handleSwapLanguages :: "state \<Rightarrow> state" where
  "handleSwapLanguages s =
     (if sourceLang s = js ''auto'' then s
      else
        (let oldSource = sourceLang s; oldTarget = targetLang s;
             oldInput = inputText s; oldOutput = translatedText_state s
         in s\<lparr> sourceLang := oldTarget, targetLang := oldSource,
               inputText := oldOutput, translatedText_state := oldInput \<rparr>))"

definition clearAll :: "state \<Rightarrow> state" where
  "clearAll s = s\<lparr> inputText := [], translatedText_state := [], error := None \<rparr>"

text \<open>The click on the history entry at index \<open>i\<close>.\<close>

definition recall :: "nat \<Rightarrow> state \<Rightarrow> state" where
  "recall i s =
     (if i < length (history s)
      then s\<lparr> inputText := (if sourceLanguage (history s ! i) = sourceLang s
                               then inputText s else []) \<rparr>
      else s)"

section \<open>App.tsx: the debounce effect\<close>

text \<open>\<open>window.clearTimeout\<close> and \<open>window.setTimeout\<close> on the table of pending timers.
  Handles are positive and never reused.\<close>

definition clearTimeout :: "nat \<Rightarrow> state \<Rightarrow> state" where
  "clearTimeout h s = s\<lparr> timers := filter (\<lambda>(i, t). i \<noteq> h) (timers s) \<rparr>"

definition setTimeout :: "timer \<Rightarrow> state \<Rightarrow> nat \<times> state" where
  "setTimeout t s =
     (next_timer s, s\<lparr> timers := timers s @ [(next_timer s, t)],
                        next_timer := next_timer s + 1 \<rparr>)"

text \<open>\<open>if (abortControllerRef.current) window.clearTimeout(abortControllerRef.current)\<close>:
  the first statement of the effect and the whole of its cleanup.\<close>

definition clear_pending :: "state \<Rightarrow> state" where
  "clear_pending s =
     (case abortControllerRef s of
        None \<Rightarrow> s
      | Some h \<Rightarrow> if h \<noteq> 0 then clearTimeout h s else s)"

definition debounce_effect :: "state \<Rightarrow> state" where
  "debounce_effect s0 =
     (let s = clear_pending s0 in
      if trim (inputText s) = []
      then s\<lparr> translatedText_state := [], isTranslating := False, cleanup := False \<rparr>
      else
        (let (h, s') = setTimeout \<lparr> deadline = clock s + 800, cb_text = inputText s,
                                    cb_source = sourceLang s, cb_target = targetLang s \<rparr> s
         in s'\<lparr> abortControllerRef := Some h, cleanup := True \<rparr>))"

text \<open>
  After a handler has set state, React renders again and, when one of the dependencies
  \<open>[inputText, sourceLang, targetLang]\<close> differs from the previous render, runs the
  cleanup the last effect returned and then the effect.
\<close>

definition deps :: "state \<Rightarrow> js_string \<times> js_string \<times> js_string" where
  "deps s = (inputText s, sourceLang s, targetLang s)"

definition rerender :: "state \<Rightarrow> state \<Rightarrow> state" where
  "rerender old s =
     (if deps s = deps old then s
      else debounce_effect (if cleanup s then clear_pending s else s))"

section \<open>App.tsx: performTranslation\<close>

text \<open>
  \<open>performTranslation\<close> up to its \<open>await\<close>. \<open>sLang\<close> and \<open>tLang\<close> are the
  \<open>sourceLang\<close> and \<open>targetLang\<close> of the render whose closure is called. The call of
  \<open>translateTextStream\<close> is logged and the invocation is kept under a fresh number
  until its stream ends or fails.
\<close>

definition performTranslation :: "js_string \<Rightarrow> js_string \<Rightarrow> js_string \<Rightarrow> state \<Rightarrow> state" where
  "performTranslation text sLang tLang s =
     (if trim text = [] then s\<lparr> translatedText_state := [] \<rparr>
      else s\<lparr> isTranslating := True, error := None, translatedText_state := [],
              streams := (streams s)
                (next_stream s \<mapsto> \<lparr> inv_text = text, inv_source = sLang, inv_target = tLang,
                                    fullText = [] \<rparr>),
              next_stream := next_stream s + 1,
              calls := calls s @ [\<lparr> call_text = text, call_source = sLang,
                                     call_target = tLang,
                                     call_contents = stream_prompt text sLang tLang \<rparr>] \<rparr>)"

text \<open>The callback passed as \<open>onChunk\<close> by invocation \<open>n\<close>.\<close>

definition onChunk :: "nat \<Rightarrow> js_string \<Rightarrow> state \<Rightarrow> state" where
  "onChunk n chunk s =
     (case streams s n of
        None \<Rightarrow> s
      | Some i \<Rightarrow>
          s\<lparr> streams := (streams s)(n \<mapsto> i\<lparr> fullText := fullText i @ chunk \<rparr>),
              translatedText_state := fullText i @ chunk \<rparr>)"

text \<open>The body of the \<open>for await\<close> loop of \<open>translateTextStream\<close> for one element of the
  stream, whose \<open>text\<close> is a string or \<open>undefined\<close>.\<close>

definition stream_chunk :: "nat \<Rightarrow> js_string option \<Rightarrow> state \<Rightarrow> state" where
  "stream_chunk n c s =
     (case c of
        None \<Rightarrow> s
      | Some textChunk \<Rightarrow> if textChunk = [] then s else onChunk n textChunk s)"

text \<open>The stream of invocation \<open>n\<close> ends: the rest of the \<open>try\<close> block, then \<open>finally\<close>.\<close>

definition stream_end :: "platform \<Rightarrow> nat \<Rightarrow> js_string \<Rightarrow> int \<Rightarrow> state \<Rightarrow> state" where
  "stream_end p n uuid tnow s =
     (case streams s n of
        None \<Rightarrow> s
      | Some i \<Rightarrow>
          (saveToHistory p (inv_text i) (fullText i) (inv_source i) (inv_target i) uuid tnow s)
            \<lparr> isTranslating := False, streams := (streams s)(n := None) \<rparr>)"

text \<open>
  The call of invocation \<open>n\<close> throws \<open>err\<close>: \<open>catch\<close>, then \<open>finally\<close>. The
  \<open>catch\<close> block reads \<open>err.name\<close> unguarded: when \<open>err\<close> is \<open>null\<close> or
  \<open>undefined\<close> the read throws a \<open>TypeError\<close> out of the block, \<open>setError\<close> is not
  reached and, after \<open>finally\<close> has run, the promise rejects with that \<open>TypeError\<close>.
\<close>

definition stream_fail :: "nat \<Rightarrow> thrown_value \<Rightarrow> state \<Rightarrow> state" where
  "stream_fail n err s =
     (case streams s n of
        None \<Rightarrow> s
      | Some i \<Rightarrow>
          (case err of
             Nullish \<Rightarrow> s\<lparr> unhandled := unhandled s @ [TypeError] \<rparr>
           | Value e \<Rightarrow>
               if err_name e \<noteq> Some (js ''AbortError'')
               then s\<lparr> error := Some (or_default (err_message e)
                                         (js ''Translation failed. Please try again.'')) \<rparr>
               else s)
            \<lparr> isTranslating := False, streams := (streams s)(n := None) \<rparr>)"

section \<open>Events\<close>

text \<open>The clock advances by \<open>d\<close>; the timers due by then run, in order.\<close>

definition elapse :: "nat \<Rightarrow> state \<Rightarrow> state" where
  "elapse d s =
     (let t = clock s + d;
          due = filter (\<lambda>(h, x). deadline x \<le> t) (timers s);
          later = filter (\<lambda>(h, x). \<not> deadline x \<le> t) (timers s)
      in fold (\<lambda>(h, x). performTranslation (cb_text x) (cb_source x) (cb_target x)) due
           (s\<lparr> clock := t, timers := later \<rparr>))"

datatype event =
    ChangeInput js_string
  | ChangeSource js_string
  | ChangeTarget js_string
  | Swap
  | ClearAll
  | ClearHistory
  | Recall nat
  | Elapse nat
  | Chunk nat "js_string option"
  | StreamEnd nat js_string int
  | StreamFail nat thrown_value

fun step :: "platform \<Rightarrow> state \<Rightarrow> event \<Rightarrow> state" where
  "step p s (ChangeInput v) = rerender s (s\<lparr> inputText := v \<rparr>)"
| "step p s (ChangeSource c) = rerender s (s\<lparr> sourceLang := c \<rparr>)"
| "step p s (ChangeTarget c) = rerender s (s\<lparr> targetLang := c \<rparr>)"
| "step p s Swap = rerender s (handleSwapLanguages s)"
| "step p s ClearAll = rerender s (clearAll s)"
| "step p s ClearHistory = clearHistory s"
| "step p s (Recall i) = rerender s (recall i s)"
| "step p s (Elapse d) = elapse d s"
| "step p s (Chunk n c) = stream_chunk n c s"
| "step p s (StreamEnd n uuid tnow) = stream_end p n uuid tnow s"
| "step p s (StreamFail n err) = stream_fail n err s"

definition run :: "platform \<Rightarrow> state \<Rightarrow> event list \<Rightarrow> state" where
  "run p s es = foldl (step p) s es"

text \<open>Mounting the component: the history effect, then the debounce effect.\<close>

definition mount :: "platform \<Rightarrow> (js_string \<rightharpoonup> js_string) \<Rightarrow> json + state" where
  "mount p stored =
     (case loadHistory p (App_init stored) of
        Inl v \<Rightarrow> Inl v
      | Inr s \<Rightarrow> Inr (debounce_effect s))"

text \<open>
  A change event sets the input text or one of the two languages to a value other than
  the current one. A burst is a list of change events, each followed by a pause shorter
  than the quiet period.
\<close>

fun changes :: "state \<Rightarrow> event \<Rightarrow> bool" where
  "changes s (ChangeInput v) = (v \<noteq> inputText s)"
| "changes s (ChangeSource c) = (c \<noteq> sourceLang s)"
| "changes s (ChangeTarget c) = (c \<noteq> targetLang s)"
| "changes s _ = False"

fun run_burst :: "platform \<Rightarrow> state \<Rightarrow> (event \<times> nat) list \<Rightarrow> state" where
  "run_burst p s [] = s"
| "run_burst p s ((e, d) # b) = run_burst p (elapse d (step p s e)) b"

fun rapid :: "platform \<Rightarrow> state \<Rightarrow> (event \<times> nat) list \<Rightarrow> bool" where
  "rapid p s [] = True"
| "rapid p s ((e, d) # b) = (changes s e \<and> d < 800 \<and> rapid p (elapse d (step p s e)) b)"

text \<open>Every pending timer is the one \<open>abortControllerRef\<close> holds.\<close>

definition timer_inv :: "state \<Rightarrow> bool" where
  "timer_inv s \<longleftrightarrow>
     next_timer s \<noteq> 0 \<and> length (timers s) \<le> 1 \<and>
     list_all (\<lambda>(h, t). h \<noteq> 0 \<and> abortControllerRef s = Some h) (timers s)"

section \<open>Notions used by the properties\<close>

text \<open>The entry a call of \<open>saveToHistory\<close> builds.\<close>

definition item_of_op :: "record_op \<Rightarrow> HistoryItem" where
  "item_of_op r = \<lparr> translatedText = op_translated r, detectedLanguage = None,
                     sourceLanguage = op_source r, targetLanguage = op_target r,
                     item_id = op_uuid r, timestamp = op_now r \<rparr>"

text \<open>The three conditions under which \<open>saveToHistory\<close> returns without adding.\<close>

definition suppressed :: "js_string \<Rightarrow> js_string \<Rightarrow> HistoryItem list \<Rightarrow> bool" where
  "suppressed text translated hs \<longleftrightarrow>
     trim text = [] \<or> trim translated = [] \<or> (hs \<noteq> [] \<and> translatedText (hd hs) = translated)"

text \<open>The clock reading of the last call of a sequence that starts at \<open>t\<close>.\<close>

definition last_now :: "int \<Rightarrow> record_op list \<Rightarrow> int" where
  "last_now t rs = (if rs = [] then t else op_now (last rs))"

text \<open>The stream call \<open>performTranslation\<close> issues for a text and a language pair.\<close>

definition call_of :: "js_string \<Rightarrow> js_string \<Rightarrow> js_string \<Rightarrow> stream_call" where
  "call_of text sLang tLang =
     \<lparr> call_text = text, call_source = sLang, call_target = tLang,
       call_contents = stream_prompt text sLang tLang \<rparr>"

text \<open>
  The state right after the debounce effect has run: no timer is pending when the trimmed
  input is empty, and otherwise the one pending timer is due 800 units from now and
  carries the current input text and language pair.
\<close>

definition armed :: "state \<Rightarrow> bool" where
  "armed s \<longleftrightarrow>
     (if trim (inputText s) = [] then timers s = []
      else timers s = [(next_timer s - 1,
                        \<lparr> deadline = clock s + 800, cb_text = inputText s,
                          cb_source = sourceLang s, cb_target = targetLang s \<rparr>)])"

text \<open>Events that are not actions of the user: time passing and the stream events.\<close>

fun ambient :: "event \<Rightarrow> bool" where
  "ambient (Elapse d) = True"
| "ambient (Chunk n c) = True"
| "ambient (StreamEnd n uuid tnow) = True"
| "ambient (StreamFail n err) = True"
| "ambient _ = False"

text \<open>The text of one stream element, and the concatenation of the texts received.\<close>

definition chunk_text :: "js_string option \<Rightarrow> js_string" where
  "chunk_text c = (case c of None \<Rightarrow> [] | Some t \<Rightarrow> t)"

definition received :: "js_string option list \<Rightarrow> js_string" where
  "received cs = concat (map chunk_text cs)"

text \<open>The response schema sent with the request of \<open>translateText\<close>: an object whose
  \<open>translatedText\<close> is a string and whose \<open>detectedLanguage\<close>, when present, is a
  string.\<close>

definition matches_schema :: "json \<Rightarrow> bool" where
  "matches_schema v \<longleftrightarrow>
     (case get_prop v (js ''translatedText'') of
        Some (JString x) \<Rightarrow>
          (case get_prop v (js ''detectedLanguage'') of
             None \<Rightarrow> True
           | Some (JString d) \<Rightarrow> True
           | Some _ \<Rightarrow> False)
      | _ \<Rightarrow> False)"

section \<open>Data of the worked examples\<close>

definition sample_op :: "nat \<Rightarrow> record_op" where
  "sample_op n = \<lparr> op_text = js ''Hello'', op_translated = js ''Hola '' @ [of_nat (96 + n)],
                    op_source = js ''auto'', op_target = js ''es'',
                    op_uuid = js ''id-'' @ [of_nat (96 + n)], op_now = int n \<rparr>"

definition sample_start :: state where
  "sample_start = App_init Map.empty"

definition sample_item :: "string \<Rightarrow> string \<Rightarrow> int \<Rightarrow> HistoryItem" where
  "sample_item i x n = \<lparr> translatedText = js x, detectedLanguage = None,
                         sourceLanguage = js ''auto'', targetLanguage = js ''es'',
                         item_id = js i, timestamp = n \<rparr>"

text \<open>A stored history of eleven entries, newest first, and its JSON text.\<close>

definition sample_entries :: "HistoryItem list" where
  "sample_entries = map (item_of_op \<circ> sample_op) [11, 10, 9, 8, 7, 6, 5, 4, 3, 2, 1]"

definition sample_stored :: js_string where
  \<open>sample_stored =
     js ''[{"id":"id-k","timestamp":11,"sourceLanguage":"auto","targetLanguage":"es","translatedText":"Hola k"}''
     @ js '',{"id":"id-j","timestamp":10,"sourceLanguage":"auto","targetLanguage":"es","translatedText":"Hola j"}''
     @ js '',{"id":"id-i","timestamp":9,"sourceLanguage":"auto","targetLanguage":"es","translatedText":"Hola i"}''
     @ js '',{"id":"id-h","timestamp":8,"sourceLanguage":"auto","targetLanguage":"es","translatedText":"Hola h"}''
     @ js '',{"id":"id-g","timestamp":7,"sourceLanguage":"auto","targetLanguage":"es","translatedText":"Hola g"}''
     @ js '',{"id":"id-f","timestamp":6,"sourceLanguage":"auto","targetLanguage":"es","translatedText":"Hola f"}''
     @ js '',{"id":"id-e","timestamp":5,"sourceLanguage":"auto","targetLanguage":"es","translatedText":"Hola e"}''
     @ js '',{"id":"id-d","timestamp":4,"sourceLanguage":"auto","targetLanguage":"es","translatedText":"Hola d"}''
     @ js '',{"id":"id-c","timestamp":3,"sourceLanguage":"auto","targetLanguage":"es","translatedText":"Hola c"}''
     @ js '',{"id":"id-b","timestamp":2,"sourceLanguage":"auto","targetLanguage":"es","translatedText":"Hola b"}''
     @ js '',{"id":"id-a","timestamp":1,"sourceLanguage":"auto","targetLanguage":"es","translatedText":"Hola a"}]''\<close>

text \<open>
  A platform for the worked examples. Its \<open>JSON.parse\<close> reads the four JSON texts the
  examples use and throws on the other texts; its \<open>JSON.stringify\<close> writes the stored
  history above, and no example reads back what it writes for another value.
\<close>

definition sample_parse :: "js_string \<Rightarrow> json option" where
  \<open>sample_parse t =
     (if t = js ''{}'' then Some (JObject [])
      else if t = js ''null'' then Some JNull
      else if t = js ''{"translatedText":"Hola"}''
        then Some (JObject [(js ''translatedText'', JString (js ''Hola''))])
      else if t = sample_stored then Some (json_of_items sample_entries)
      else None)\<close>

definition sample_stringify :: "json \<Rightarrow> js_string" where
  "sample_stringify v = (if v = json_of_items sample_entries then sample_stored else js ''null'')"

definition sample_platform :: platform where
  "sample_platform = \<lparr> JSON_parse = sample_parse, JSON_stringify = sample_stringify \<rparr>"

text \<open>Services for the worked examples of \<open>translateText\<close>: one that rejects, and four
  that answer with no text, with a text that is not JSON, with \<open>null\<close> and with an object
  that matches the schema.\<close>

definition failing_service :: "js_string \<Rightarrow> reply" where
  "failing_service request =
     Fails (Value \<lparr> err_name = Some (js ''Error''), err_message = Some (js ''network'') \<rparr>)"

definition no_text_service :: "js_string \<Rightarrow> reply" where
  "no_text_service request = Response None"

definition garbled_service :: "js_string \<Rightarrow> reply" where
  "garbled_service request = Response (Some (js ''Hola''))"

definition null_service :: "js_string \<Rightarrow> reply" where
  "null_service request = Response (Some (js ''null''))"

definition hola_service :: "js_string \<Rightarrow> reply" where
  \<open>hola_service request = Response (Some (js ''{"translatedText":"Hola"}''))\<close>

section \<open>Properties of the history cache\<close>

lemma history_saveToHistory:
  "history (saveToHistory p text translated sLang tLang uuid tnow s) =
     (if suppressed text translated (history s) then history s
      else take 10 (\<lparr> translatedText = translated, detectedLanguage = None,
                       sourceLanguage = sLang, targetLanguage = tLang,
                       item_id = uuid, timestamp = tnow \<rparr> # history s))"
  by (cases "history s") (simp_all add: saveToHistory_def suppressed_def Let_def)

lemma history_record_one:
  "history (record_one p s r) =
     (if suppressed (op_text r) (op_translated r) (history s) then history s
      else take 10 (item_of_op r # history s))"
  by (simp add: record_one_def history_saveToHistory item_of_op_def)

lemma length_record_one: "length (history s) \<le> 10 \<Longrightarrow> length (history (record_one p s r)) \<le> 10"
  by (simp add: history_record_one)

lemma record_all_snoc: "record_all p s (rs @ [r]) = record_one p (record_all p s rs) r"
  by (simp add: record_all_def)

lemma length_record_all: "length (history s) \<le> 10 \<Longrightarrow> length (history (record_all p s rs)) \<le> 10"
  by (induction rs rule: rev_induct) (simp_all add: record_all_snoc length_record_one, simp add: record_all_def)

lemma newest_first_take: "newest_first t hs \<Longrightarrow> newest_first t (take n hs)"
  unfolding newest_first_def
  by (auto simp: list_all_iff sorted_wrt_take dest: in_set_takeD)

lemma newest_first_mono: "newest_first t hs \<Longrightarrow> t \<le> u \<Longrightarrow> newest_first u hs"
  unfolding newest_first_def by (auto simp: list_all_iff)

lemma newest_first_Cons: "newest_first t hs \<Longrightarrow> t \<le> timestamp h \<Longrightarrow> newest_first (timestamp h) (h # hs)"
  unfolding newest_first_def by (auto simp: list_all_iff)

lemma newest_first_record_one:
  "newest_first t (history s) \<Longrightarrow> t \<le> op_now r \<Longrightarrow> newest_first (op_now r) (history (record_one p s r))"
  using newest_first_take [OF newest_first_Cons [of t "history s" "item_of_op r"], of 10]
  by (auto simp: history_record_one item_of_op_def intro: newest_first_mono)

lemma chronological_snoc: "chronological t (rs @ [r]) \<longleftrightarrow> chronological t rs \<and> last_now t rs \<le> op_now r"
  by (induction rs arbitrary: t) (auto simp: last_now_def)

lemma newest_first_record_all:
  "newest_first t (history s) \<Longrightarrow> chronological t rs \<Longrightarrow> newest_first (last_now t rs) (history (record_all p s rs))"
proof (induction rs rule: rev_induct)
  case Nil
  then show ?case by (simp add: record_all_def last_now_def)
next
  case (snoc r rs)
  then have "newest_first (last_now t rs) (history (record_all p s rs))" and "last_now t rs \<le> op_now r"
    by (simp_all add: chronological_snoc)
  then show ?case
    by (simp add: record_all_snoc last_now_def newest_first_record_one)
qed

lemma newest_first_last:
  "newest_first t hs \<Longrightarrow> x \<in> set hs \<Longrightarrow> timestamp (last hs) \<le> timestamp x"
  unfolding newest_first_def
  by (induction hs) (auto split: if_splits)

lemma take_Cons_take: "take 10 (x # take 10 ys) = take 10 (x # ys)"
  by (simp add: take_Cons')

lemma history_record_all_subseq:
  assumes "length (history s) \<le> 10"
  shows "\<exists>acc. subseq acc rs
     \<and> history (record_all p s rs) = take 10 (rev (map item_of_op acc) @ history s)"
proof (induction rs rule: rev_induct)
  case Nil
  have "subseq [] ([] :: record_op list)"
    "history (record_all p s []) = take 10 (rev (map item_of_op []) @ history s)"
    using assms by (simp_all add: record_all_def)
  then show ?case by blast
next
  case (snoc r rs)
  then obtain acc where acc: "subseq acc rs"
    "history (record_all p s rs) = take 10 (rev (map item_of_op acc) @ history s)"
    by blast
  show ?case
  proof (cases "suppressed (op_text r) (op_translated r) (history (record_all p s rs))")
    case True
    have "subseq acc (rs @ [r])"
      using acc(1) by (rule list_emb_prefix)
    moreover have "history (record_all p s (rs @ [r]))
        = take 10 (rev (map item_of_op acc) @ history s)"
      using True acc(2) by (simp add: record_all_snoc history_record_one)
    ultimately show ?thesis by blast
  next
    case False
    have "history (record_all p s (rs @ [r]))
        = take 10 (item_of_op r # take 10 (rev (map item_of_op acc) @ history s))"
      using False acc(2) by (simp only: record_all_snoc history_record_one if_False)
    also have "\<dots> = take 10 (rev (map item_of_op (acc @ [r])) @ history s)"
      unfolding take_Cons_take by simp
    finally have "history (record_all p s (rs @ [r]))
        = take 10 (rev (map item_of_op (acc @ [r])) @ history s)" .
    moreover have "subseq (acc @ [r]) (rs @ [r])"
      using acc(1) by (simp add: list_emb_append_mono)
    ultimately show ?thesis by blast
  qed
qed

text \<open>
  Claim C4. Start from a history of at most 10 entries and run any sequence \<open>rs\<close> of
  \<open>saveToHistory\<close> calls. The history then has at most 10 entries, and it consists of
  the entries of the calls that added one, the latest call first, followed by the entries
  it started with, cut to 10. If the history was ordered by time, most recent first, and
  the clock never went back during the calls, it still is, so its last entry is its oldest.
  One more call \<open>r\<close> either leaves the list as it is or puts its new entry at the head in
  front of the old entries in their old order; when the list was full, the entry dropped
  is exactly the last one, the oldest.
\<close>

theorem record_all_bounded_newest_first:
  assumes "length (history s) \<le> 10"
  shows "let h = history (record_all p s rs);
             h' = history (record_one p (record_all p s rs) r)
         in length h \<le> 10
          \<and> (\<exists>acc. subseq acc rs \<and> h = take 10 (rev (map item_of_op acc) @ history s))
          \<and> (newest_first t (history s) \<and> chronological t rs \<longrightarrow>
               newest_first (last_now t rs) h
               \<and> (\<forall>x \<in> set h. timestamp (last h) \<le> timestamp x))
          \<and> (h' = h \<or> h' = item_of_op r # take 9 h)
          \<and> (length h = 10 \<and> h' \<noteq> h \<longrightarrow> h' = item_of_op r # butlast h)"
proof -
  let ?h = "history (record_all p s rs)"
  have len: "length ?h \<le> 10"
    using assms by (rule length_record_all)
  have order: "newest_first (last_now t rs) ?h \<and> (\<forall>x \<in> set ?h. timestamp (last ?h) \<le> timestamp x)"
    if "newest_first t (history s)" "chronological t rs"
    using newest_first_record_all [OF that] newest_first_last by blast
  have step: "history (record_one p (record_all p s rs) r) = ?h
      \<or> history (record_one p (record_all p s rs) r) = item_of_op r # take 9 ?h"
    by (simp add: history_record_one)
  have full: "take 9 ?h = butlast ?h" if "length ?h = 10"
    using that by (simp add: butlast_conv_take)
  note whole = history_record_all_subseq [OF assms, of rs p]
  show ?thesis
    unfolding Let_def using len whole order step full by metis
qed

theorem record_all_bounded_newest_first_witness:
  "let p = sample_platform;
       s = (App_init Map.empty)
             \<lparr> history := map (item_of_op \<circ> sample_op) [9, 8, 7, 6, 5, 4, 3, 2, 1] \<rparr>;
       rs = [sample_op 10]; r = sample_op 11;
       h = history (record_all p s rs); h' = history (record_one p (record_all p s rs) r)
   in length (history s) \<le> 10 \<and> newest_first 9 (history s) \<and> chronological 9 rs
      \<and> length h = 10 \<and> h' \<noteq> h
      \<and> h = map (item_of_op \<circ> sample_op) [10, 9, 8, 7, 6, 5, 4, 3, 2, 1]
      \<and> h' = map (item_of_op \<circ> sample_op) [11, 10, 9, 8, 7, 6, 5, 4, 3, 2]
      \<and> h' = item_of_op r # butlast h
      \<and> newest_first (last_now 9 rs) h
      \<and> timestamp (last h) = 1"
proof -
  let ?s = "(App_init Map.empty)
             \<lparr> history := map (item_of_op \<circ> sample_op) [9, 8, 7, 6, 5, 4, 3, 2, 1] \<rparr>"
  have h: "history (record_all sample_platform ?s [sample_op 10])
      = map (item_of_op \<circ> sample_op) [10, 9, 8, 7, 6, 5, 4, 3, 2, 1]"
    by (simp add: record_all_def history_record_one suppressed_def
        sample_op_def item_of_op_def js_def trim_def is_white_space_def)
  have h': "history (record_one sample_platform (record_all sample_platform ?s [sample_op 10])
        (sample_op 11))
      = map (item_of_op \<circ> sample_op) [11, 10, 9, 8, 7, 6, 5, 4, 3, 2]"
    unfolding history_record_one h
    by (simp add: suppressed_def sample_op_def item_of_op_def js_def trim_def
        is_white_space_def)
  have pre: "length (history ?s) \<le> 10" "newest_first 9 (history ?s)"
    "chronological 9 [sample_op 10]"
    by (simp_all add: newest_first_def sample_op_def item_of_op_def)
  from record_all_bounded_newest_first [where s = ?s and p = sample_platform
      and rs = "[sample_op 10]" and t = 9 and r = "sample_op 11", OF pre(1)] pre
  show ?thesis
    unfolding Let_def h h'
    by (simp add: last_now_def sample_op_def item_of_op_def)
qed

text \<open>
  Claim C5. \<open>saveToHistory\<close> leaves the history list unchanged exactly when the source
  text is empty or whitespace-only, or the translated text is empty or whitespace-only, or
  the list is non-empty and its head entry has the same translated text. In every other
  case, also when an entry behind the head has the same translated text, the new entry is
  put at the head and the list is cut to 10 entries.
\<close>

theorem saveToHistory_unchanged_iff:
  "(history (saveToHistory p text translated sLang tLang uuid tnow s) = history s
      \<longleftrightarrow> trim text = [] \<or> trim translated = []
          \<or> (history s \<noteq> [] \<and> translatedText (hd (history s)) = translated))
   \<and> (trim text \<noteq> [] \<and> trim translated \<noteq> []
        \<and> \<not> (history s \<noteq> [] \<and> translatedText (hd (history s)) = translated)
      \<longrightarrow> history (saveToHistory p text translated sLang tLang uuid tnow s)
            = take 10 (\<lparr> translatedText = translated, detectedLanguage = None,
                          sourceLanguage = sLang, targetLanguage = tLang,
                          item_id = uuid, timestamp = tnow \<rparr> # history s))"
  by (cases "history s") (auto simp: history_saveToHistory suppressed_def)

theorem saveToHistory_unchanged_iff_witness:
  "let s = (App_init Map.empty)\<lparr> history := [sample_item ''id-2'' ''Hola'' 2,
                                                sample_item ''id-1'' ''Bonjour'' 1] \<rparr>
   in trim (js ''Hi'') \<noteq> [] \<and> trim (js ''Bonjour'') \<noteq> [] \<and> trim (js ''  '') = []
      \<and> translatedText (hd (history s)) = js ''Hola''
      \<and> history (saveToHistory sample_platform (js ''Hi'') (js ''Hola'') (js ''en'') (js ''es'')
                   (js ''id-3'') 3 s) = history s
      \<and> history (saveToHistory sample_platform (js ''  '') (js ''Salut'') (js ''en'') (js ''fr'')
                   (js ''id-3'') 3 s) = history s
      \<and> history (saveToHistory sample_platform (js ''Hi'') (js ''Bonjour'') (js ''en'') (js ''fr'')
                   (js ''id-3'') 3 s)
          = [\<lparr> translatedText = js ''Bonjour'', detectedLanguage = None,
               sourceLanguage = js ''en'', targetLanguage = js ''fr'',
               item_id = js ''id-3'', timestamp = 3 \<rparr>,
             sample_item ''id-2'' ''Hola'' 2, sample_item ''id-1'' ''Bonjour'' 1]"
  using
    saveToHistory_unchanged_iff [of sample_platform "js ''Hi''" "js ''Hola''" "js ''en''"
      "js ''es''" "js ''id-3''" 3
      "(App_init Map.empty)\<lparr> history := [sample_item ''id-2'' ''Hola'' 2,
                                            sample_item ''id-1'' ''Bonjour'' 1] \<rparr>"]
    saveToHistory_unchanged_iff [of sample_platform "js ''  ''" "js ''Salut''" "js ''en''"
      "js ''fr''" "js ''id-3''" 3
      "(App_init Map.empty)\<lparr> history := [sample_item ''id-2'' ''Hola'' 2,
                                            sample_item ''id-1'' ''Bonjour'' 1] \<rparr>"]
    saveToHistory_unchanged_iff [of sample_platform "js ''Hi''" "js ''Bonjour''" "js ''en''"
      "js ''fr''" "js ''id-3''" 3
      "(App_init Map.empty)\<lparr> history := [sample_item ''id-2'' ''Hola'' 2,
                                            sample_item ''id-1'' ''Bonjour'' 1] \<rparr>"]
  by (simp add: Let_def App_init_def sample_item_def js_def trim_def is_white_space_def)

section \<open>Properties of the debounce effect\<close>

lemma clear_pending_idem: "clear_pending (clear_pending s) = clear_pending s"
  by (simp add: clear_pending_def clearTimeout_def split: option.splits)

lemma clear_pending_fields [simp]:
  "inputText (clear_pending s) = inputText s"
  "sourceLang (clear_pending s) = sourceLang s"
  "targetLang (clear_pending s) = targetLang s"
  "clock (clear_pending s) = clock s"
  "next_timer (clear_pending s) = next_timer s"
  "abortControllerRef (clear_pending s) = abortControllerRef s"
  "calls (clear_pending s) = calls s"
  by (simp_all add: clear_pending_def clearTimeout_def split: option.splits)

lemma timers_clear_pending: "timer_inv s \<Longrightarrow> timers (clear_pending s) = []"
  by (cases "timers s")
    (auto simp: timer_inv_def clear_pending_def clearTimeout_def split: option.splits)

lemma debounce_effect_clear: "debounce_effect (clear_pending s) = debounce_effect s"
  by (simp add: debounce_effect_def clear_pending_idem)

lemma rerender_eq: "rerender old s = (if deps s = deps old then s else debounce_effect s)"
  by (simp add: rerender_def debounce_effect_clear)

lemma debounce_effect_fields [simp]:
  "inputText (debounce_effect s) = inputText s"
  "sourceLang (debounce_effect s) = sourceLang s"
  "targetLang (debounce_effect s) = targetLang s"
  "clock (debounce_effect s) = clock s"
  "calls (debounce_effect s) = calls s"
  by (simp_all add: debounce_effect_def setTimeout_def Let_def)

lemma timers_debounce_effect:
  "timer_inv s \<Longrightarrow>
   timers (debounce_effect s) =
     (if trim (inputText s) = [] then []
      else [(next_timer s, \<lparr> deadline = clock s + 800, cb_text = inputText s,
                              cb_source = sourceLang s, cb_target = targetLang s \<rparr>)])"
  by (simp add: debounce_effect_def setTimeout_def Let_def timers_clear_pending)

lemma next_timer_debounce_effect:
  "next_timer (debounce_effect s) = (if trim (inputText s) = [] then next_timer s else next_timer s + 1)"
  by (simp add: debounce_effect_def setTimeout_def Let_def)

lemma ref_debounce_effect:
  "abortControllerRef (debounce_effect s) =
     (if trim (inputText s) = [] then abortControllerRef s else Some (next_timer s))"
  by (simp add: debounce_effect_def setTimeout_def Let_def)

lemma timer_inv_debounce_effect: "timer_inv s \<Longrightarrow> timer_inv (debounce_effect s)"
  unfolding timer_inv_def [of "debounce_effect s"]
  by (simp add: timers_debounce_effect next_timer_debounce_effect ref_debounce_effect)
    (simp add: timer_inv_def)

lemma armed_debounce_effect: "timer_inv s \<Longrightarrow> armed (debounce_effect s)"
  by (simp add: armed_def timers_debounce_effect next_timer_debounce_effect)

lemma performTranslation_fields [simp]:
  "timers (performTranslation text sLang tLang s) = timers s"
  "next_timer (performTranslation text sLang tLang s) = next_timer s"
  "abortControllerRef (performTranslation text sLang tLang s) = abortControllerRef s"
  "clock (performTranslation text sLang tLang s) = clock s"
  "inputText (performTranslation text sLang tLang s) = inputText s"
  "sourceLang (performTranslation text sLang tLang s) = sourceLang s"
  "targetLang (performTranslation text sLang tLang s) = targetLang s"
  "history (performTranslation text sLang tLang s) = history s"
  by (simp_all add: performTranslation_def)

lemma calls_performTranslation:
  "calls (performTranslation text sLang tLang s) =
     (if trim text = [] then calls s else calls s @ [call_of text sLang tLang])"
  by (simp add: performTranslation_def call_of_def)

lemma elapse_no_timer:
  "timers s = [] \<Longrightarrow> elapse d s = s\<lparr> clock := clock s + d, timers := [] \<rparr>"
  by (simp add: elapse_def)

lemma elapse_one_timer:
  "timers s = [(h, x)] \<Longrightarrow>
   elapse d s =
     (if deadline x \<le> clock s + d
      then performTranslation (cb_text x) (cb_source x) (cb_target x)
             (s\<lparr> clock := clock s + d, timers := [] \<rparr>)
      else s\<lparr> clock := clock s + d, timers := [(h, x)] \<rparr>)"
  by (simp add: elapse_def)

lemma timers_cases:
  assumes "timer_inv s"
  obtains "timers s = []" | h x where "timers s = [(h, x)]" "h \<noteq> 0" "abortControllerRef s = Some h"
proof (cases "timers s")
  case Nil
  then show ?thesis by (rule that(1))
next
  case (Cons a as)
  with assms have "as = []" by (simp add: timer_inv_def)
  with Cons assms show ?thesis
    by (cases a) (auto simp: timer_inv_def intro: that(2))
qed

lemma timer_inv_elapse:
  assumes "timer_inv s"
  shows "timer_inv (elapse d s)"
  using assms
  by (rule timers_cases) (use assms in \<open>auto simp: elapse_no_timer elapse_one_timer timer_inv_def\<close>)

lemma elapse_armed_short:
  "armed s \<Longrightarrow> d < 800 \<Longrightarrow> calls (elapse d s) = calls s"
  by (cases "trim (inputText s) = []") (simp_all add: armed_def elapse_no_timer elapse_one_timer)

lemma elapse_armed_fire:
  "armed s \<Longrightarrow> trim (inputText s) \<noteq> [] \<Longrightarrow>
   elapse 800 s = performTranslation (inputText s) (sourceLang s) (targetLang s)
                    (s\<lparr> clock := clock s + 800, timers := [] \<rparr>)"
  by (simp add: armed_def elapse_one_timer)

lemma step_change:
  assumes "timer_inv s" "changes s e"
  shows "armed (step p s e)" "timer_inv (step p s e)" "calls (step p s e) = calls s"
proof -
  obtain s' where s': "step p s e = debounce_effect s'" "timer_inv s'"
  proof (cases e)
    case (ChangeInput v)
    with assms show ?thesis
      by (intro that [of "s\<lparr> inputText := v \<rparr>"]) (auto simp: rerender_eq deps_def timer_inv_def)
  next
    case (ChangeSource c)
    with assms show ?thesis
      by (intro that [of "s\<lparr> sourceLang := c \<rparr>"]) (auto simp: rerender_eq deps_def timer_inv_def)
  next
    case (ChangeTarget c)
    with assms show ?thesis
      by (intro that [of "s\<lparr> targetLang := c \<rparr>"]) (auto simp: rerender_eq deps_def timer_inv_def)
  qed (use assms in simp_all)
  show "armed (step p s e)" "timer_inv (step p s e)"
    using s' by (simp_all add: armed_debounce_effect timer_inv_debounce_effect)
  show "calls (step p s e) = calls s"
    using assms by (cases e) (simp_all add: rerender_eq)
qed

lemma rapid_burst:
  "timer_inv s \<Longrightarrow> rapid p s b \<Longrightarrow>
   timer_inv (run_burst p s b) \<and> calls (run_burst p s b) = calls s"
proof (induction b arbitrary: s)
  case Nil
  then show ?case by simp
next
  case (Cons a b)
  obtain e d where a: "a = (e, d)" by (cases a)
  from Cons.prems a have e: "changes s e" "d < 800" "rapid p (elapse d (step p s e)) b"
    by simp_all
  note st = step_change [OF Cons.prems(1) e(1), of p]
  have "timer_inv (elapse d (step p s e))"
    using st(2) by (rule timer_inv_elapse)
  moreover have "calls (elapse d (step p s e)) = calls s"
    using elapse_armed_short [OF st(1) e(2)] st(3) by simp
  ultimately show ?case
    using Cons.IH [OF _ e(3)] a by simp
qed

lemma saveToHistory_fields [simp]:
  "timers (saveToHistory p text translated sLang tLang uuid tnow s) = timers s"
  "next_timer (saveToHistory p text translated sLang tLang uuid tnow s) = next_timer s"
  "abortControllerRef (saveToHistory p text translated sLang tLang uuid tnow s) = abortControllerRef s"
  "calls (saveToHistory p text translated sLang tLang uuid tnow s) = calls s"
  "streams (saveToHistory p text translated sLang tLang uuid tnow s) = streams s"
  "translatedText_state (saveToHistory p text translated sLang tLang uuid tnow s) = translatedText_state s"
  "error (saveToHistory p text translated sLang tLang uuid tnow s) = error s"
  by (simp_all add: saveToHistory_def Let_def)

lemma stream_fields [simp]:
  "timers (stream_chunk n c s) = timers s"
  "next_timer (stream_chunk n c s) = next_timer s"
  "abortControllerRef (stream_chunk n c s) = abortControllerRef s"
  "calls (stream_chunk n c s) = calls s"
  "timers (stream_end p n uuid tnow s) = timers s"
  "next_timer (stream_end p n uuid tnow s) = next_timer s"
  "abortControllerRef (stream_end p n uuid tnow s) = abortControllerRef s"
  "calls (stream_end p n uuid tnow s) = calls s"
  "timers (stream_fail n err s) = timers s"
  "next_timer (stream_fail n err s) = next_timer s"
  "abortControllerRef (stream_fail n err s) = abortControllerRef s"
  "calls (stream_fail n err s) = calls s"
  by (simp_all add: stream_chunk_def onChunk_def stream_end_def stream_fail_def
      split: option.splits thrown_value.splits)

lemma handler_fields [simp]:
  "timers (handleSwapLanguages s) = timers s"
  "next_timer (handleSwapLanguages s) = next_timer s"
  "abortControllerRef (handleSwapLanguages s) = abortControllerRef s"
  "timers (clearAll s) = timers s"
  "next_timer (clearAll s) = next_timer s"
  "abortControllerRef (clearAll s) = abortControllerRef s"
  "timers (recall i s) = timers s"
  "next_timer (recall i s) = next_timer s"
  "abortControllerRef (recall i s) = abortControllerRef s"
  "timers (clearHistory s) = timers s"
  "next_timer (clearHistory s) = next_timer s"
  "abortControllerRef (clearHistory s) = abortControllerRef s"
  by (simp_all add: handleSwapLanguages_def Let_def clearAll_def recall_def clearHistory_def)

lemma timer_inv_rerender: "timer_inv s \<Longrightarrow> timer_inv (rerender old s)"
  by (simp add: rerender_eq timer_inv_debounce_effect)

lemma timer_inv_handler:
  "timer_inv s \<Longrightarrow> timers s' = timers s \<Longrightarrow> next_timer s' = next_timer s \<Longrightarrow>
   abortControllerRef s' = abortControllerRef s \<Longrightarrow> timer_inv (rerender s s')"
  by (rule timer_inv_rerender) (simp add: timer_inv_def)

lemma timer_inv_step:
  assumes "timer_inv s"
  shows "timer_inv (step p s e)"
proof (cases e)
  case (Elapse d)
  with assms show ?thesis by (simp add: timer_inv_elapse)
next
  case ClearHistory
  with assms show ?thesis by (simp add: timer_inv_def)
next
  case (Chunk n c)
  with assms show ?thesis by (simp add: timer_inv_def)
next
  case (StreamEnd n uuid tnow)
  with assms show ?thesis by (simp add: timer_inv_def)
next
  case (StreamFail n err)
  with assms show ?thesis by (simp add: timer_inv_def)
qed (use assms in \<open>simp_all add: timer_inv_handler\<close>)

lemma timer_inv_run: "timer_inv s \<Longrightarrow> timer_inv (run p s es)"
  unfolding run_def by (induction es arbitrary: s) (simp_all add: timer_inv_step)

lemma timer_inv_App_init: "timer_inv (App_init stored)"
  by (simp add: timer_inv_def App_init_def)

lemma timer_inv_loadHistory: "timer_inv s \<Longrightarrow> loadHistory p s = Inr s' \<Longrightarrow> timer_inv s'"
  by (auto simp: loadHistory_def timer_inv_def split: option.splits if_splits)

lemma timer_inv_mount:
  assumes "mount p stored = Inr s"
  shows "timer_inv s"
proof -
  from assms obtain s' where s': "loadHistory p (App_init stored) = Inr s'"
    and s: "s = debounce_effect s'"
    by (auto simp: mount_def split: sum.splits)
  from timer_inv_App_init s' have "timer_inv s'"
    by (rule timer_inv_loadHistory)
  then show ?thesis
    unfolding s by (rule timer_inv_debounce_effect)
qed

lemma ambient_step:
  "timers s = [] \<Longrightarrow> ambient e \<Longrightarrow> timers (step p s e) = [] \<and> calls (step p s e) = calls s"
  by (cases e) (simp_all add: elapse_no_timer)

lemma ambient_run:
  "timers s = [] \<Longrightarrow> list_all ambient es \<Longrightarrow> calls (run p s es) = calls s"
  unfolding run_def
proof (induction es arbitrary: s)
  case Nil
  then show ?case by simp
next
  case (Cons e es)
  from Cons.prems have "timers (step p s e) = []" "calls (step p s e) = calls s"
    by (simp_all add: ambient_step)
  with Cons.IH [of "step p s e"] Cons.prems show ?case by simp
qed


lemma fold_fire_fields:
  "inputText (fold (\<lambda>(h, x). performTranslation (cb_text x) (cb_source x) (cb_target x)) due s) = inputText s
   \<and> sourceLang (fold (\<lambda>(h, x). performTranslation (cb_text x) (cb_source x) (cb_target x)) due s) = sourceLang s
   \<and> targetLang (fold (\<lambda>(h, x). performTranslation (cb_text x) (cb_source x) (cb_target x)) due s) = targetLang s"
  by (induction due arbitrary: s) (simp_all add: split_beta)

lemma elapse_fields [simp]:
  "inputText (elapse d s) = inputText s"
  "sourceLang (elapse d s) = sourceLang s"
  "targetLang (elapse d s) = targetLang s"
  by (simp_all add: elapse_def Let_def fold_fire_fields)

lemma rerender_fields [simp]:
  "inputText (rerender old s) = inputText s"
  "sourceLang (rerender old s) = sourceLang s"
  "targetLang (rerender old s) = targetLang s"
  by (simp_all add: rerender_eq)


text \<open>
  Claim C2. Take a state in which every pending timer is the one \<open>abortControllerRef\<close>
  holds (true when the component mounts and kept by every event), then a burst of
  input-text and language changes, each followed by a pause shorter than 800, then one
  more change \<open>e\<close> that leaves an input text which is not empty after trimming. No stream
  call is issued during the burst nor while less than 800 units have passed since \<open>e\<close>;
  when 800 units have passed exactly one call is issued, and it carries the input text and
  the language pair of the state after \<open>e\<close>. Whatever events occur, at most one timer is
  pending.
\<close>

theorem debounce_single_call:
  assumes "timer_inv s0" and "rapid p s0 b" and "changes (run_burst p s0 b) e"
    and "trim (inputText (step p (run_burst p s0 b) e)) \<noteq> []"
  shows "(let s = step p (run_burst p s0 b) e in
           calls s = calls s0
           \<and> (\<forall>d < 800. calls (step p s (Elapse d)) = calls s0)
           \<and> calls (step p s (Elapse 800))
               = calls s0 @ [call_of (inputText s) (sourceLang s) (targetLang s)])
         \<and> (\<forall>es. length (timers (run p s0 es)) \<le> 1)"
proof -
  let ?s = "step p (run_burst p s0 b) e"
  from rapid_burst [OF assms(1,2)]
  have inv: "timer_inv (run_burst p s0 b)" and same: "calls (run_burst p s0 b) = calls s0"
    by simp_all
  note st = step_change [OF inv assms(3), of p]
  have "calls ?s = calls s0"
    using st(3) same by simp
  moreover have "calls (step p ?s (Elapse d)) = calls s0" if "d < 800" for d
    using elapse_armed_short [OF st(1) that] st(3) same by simp
  moreover have "calls (step p ?s (Elapse 800))
      = calls s0 @ [call_of (inputText ?s) (sourceLang ?s) (targetLang ?s)]"
    using assms(4) st(3) same
    by (simp add: elapse_armed_fire [OF st(1) assms(4)] calls_performTranslation)
  moreover have "length (timers (run p s0 es)) \<le> 1" for es
    using timer_inv_run [OF assms(1), of p es] by (simp add: timer_inv_def)
  ultimately show ?thesis
    unfolding Let_def by blast
qed

theorem debounce_single_call_witness:
  "let p = sample_platform; s0 = App_init Map.empty;
       b = [(ChangeInput (js ''H''), 100), (ChangeInput (js ''''), 250),
            (ChangeInput (js ''Hi''), 250), (ChangeTarget (js ''fr''), 799)];
       e = ChangeInput (js ''Hi!'');
       s = step p (run_burst p s0 b) e
   in timer_inv s0 \<and> rapid p s0 b \<and> changes (run_burst p s0 b) e \<and> trim (inputText s) \<noteq> []
      \<and> calls (step p s (Elapse 799)) = []
      \<and> calls (step p s (Elapse 800)) = [call_of (js ''Hi!'') (js ''auto'') (js ''fr'')]
      \<and> length (timers (run p s0 [ChangeInput (js ''H''), Elapse 100, ChangeInput (js ''Hi'')])) \<le> 1"
proof -
  let ?p = sample_platform
  let ?s0 = "App_init Map.empty"
  let ?b = "[(ChangeInput (js ''H''), 100), (ChangeInput (js ''''), 250),
            (ChangeInput (js ''Hi''), 250), (ChangeTarget (js ''fr''), 799)]"
  let ?e = "ChangeInput (js ''Hi!'')"
  have f: "inputText ?s0 = []" "sourceLang ?s0 = js ''auto''" "targetLang ?s0 = js ''es''"
    "calls ?s0 = []"
    by (simp_all add: App_init_def)
  have pre: "timer_inv ?s0" "rapid ?p ?s0 ?b" "changes (run_burst ?p ?s0 ?b) ?e"
    "trim (inputText (step ?p (run_burst ?p ?s0 ?b) ?e)) \<noteq> []"
    by (simp_all add: timer_inv_App_init f js_def trim_def is_white_space_def)
  from debounce_single_call [OF pre] pre show ?thesis
    unfolding Let_def by (simp add: f)
qed

text \<open>
  Claim C3. When the input text is changed to a text that is empty or whitespace-only,
  the pending timer is cancelled, the output text is cleared and the in-flight flag is
  cleared; no stream call is issued by that event nor by any later passing of time or stream
  event.
\<close>

theorem blank_input_cancels:
  assumes "timer_inv s" and "trim v = []" and "v \<noteq> inputText s"
  shows "let s' = step p s (ChangeInput v) in
           timers s' = [] \<and> translatedText_state s' = [] \<and> \<not> isTranslating s'
           \<and> calls s' = calls s
           \<and> (\<forall>es. list_all ambient es \<longrightarrow> calls (run p s' es) = calls s)"
proof -
  let ?s1 = "s\<lparr> inputText := v \<rparr>"
  have inv: "timer_inv ?s1"
    using assms(1) by (simp add: timer_inv_def)
  have eq: "step p s (ChangeInput v) = debounce_effect ?s1"
    using assms(3) by (simp add: rerender_eq deps_def)
  have t: "timers (debounce_effect ?s1) = []"
    using assms(2) by (simp add: timers_debounce_effect [OF inv])
  have "translatedText_state (debounce_effect ?s1) = []" "\<not> isTranslating (debounce_effect ?s1)"
    using assms(2) by (simp_all add: debounce_effect_def)
  moreover have "calls (debounce_effect ?s1) = calls s"
    by simp
  moreover have "calls (run p (debounce_effect ?s1) es) = calls s" if "list_all ambient es" for es
    using ambient_run [OF t that, of p] by simp
  ultimately show ?thesis
    unfolding Let_def eq using t by blast
qed

theorem blank_input_cancels_witness:
  "let p = sample_platform; s = step p (App_init Map.empty) (ChangeInput (js ''Hi''));
       v = js ''  ''; s' = step p s (ChangeInput v)
   in timer_inv s \<and> trim v = [] \<and> v \<noteq> inputText s \<and> length (timers s) = 1
      \<and> timers s' = [] \<and> translatedText_state s' = [] \<and> \<not> isTranslating s'
      \<and> calls (run p s' [Elapse 800, Elapse 800]) = []"
proof -
  let ?p = sample_platform
  let ?s = "step ?p (App_init Map.empty) (ChangeInput (js ''Hi''))"
  have inv: "timer_inv ?s"
    by (rule timer_inv_step [OF timer_inv_App_init])
  have pre: "timer_inv ?s" "trim (js ''  '') = []" "js ''  '' \<noteq> inputText ?s"
    using inv by (simp_all add: js_def trim_def is_white_space_def)
  have t: "length (timers ?s) = 1"
    using timer_inv_App_init [of Map.empty]
    by (simp add: rerender_eq deps_def timers_debounce_effect timer_inv_def App_init_def
        js_def trim_def is_white_space_def)
  have c: "calls ?s = []"
    by (simp add: rerender_eq App_init_def)
  from blank_input_cancels [OF pre, of ?p] pre t c show ?thesis
    unfolding Let_def by simp
qed

section \<open>Properties of performTranslation\<close>

text \<open>The definitions that evaluate a concrete sequence of events.\<close>

lemmas machine_defs = App_init_def run_def rerender_def deps_def debounce_effect_def
  clear_pending_def clearTimeout_def setTimeout_def elapse_def performTranslation_def
  stream_chunk_def onChunk_def stream_end_def stream_fail_def or_default_def
  saveToHistory_def Let_def
  js_def trim_def is_white_space_def call_of_def

lemma received_simps [simp]:
  "received [] = []"
  "received (c # cs) = chunk_text c @ received cs"
  by (simp_all add: received_def)

lemma stream_chunk_shown:
  assumes "streams s n = Some i" "translatedText_state s = fullText i"
  shows "streams (stream_chunk n c s) n = Some (i\<lparr> fullText := fullText i @ chunk_text c \<rparr>)"
    and "translatedText_state (stream_chunk n c s) = fullText i @ chunk_text c"
    and "history (stream_chunk n c s) = history s"
    and "error (stream_chunk n c s) = error s"
    and "isTranslating (stream_chunk n c s) = isTranslating s"
    and "unhandled (stream_chunk n c s) = unhandled s"
  using assms
  by (simp_all add: stream_chunk_def onChunk_def chunk_text_def split: option.splits)

lemma run_Cons: "run p s (e # es) = run p (step p s e) es"
  by (simp add: run_def)

lemma run_append: "run p s (es @ es') = run p (run p s es) es'"
  by (simp add: run_def)

lemma run_chunks:
  assumes "streams s n = Some i" "translatedText_state s = fullText i"
  shows "streams (run p s (map (Chunk n) cs)) n = Some (i\<lparr> fullText := fullText i @ received cs \<rparr>)
    \<and> translatedText_state (run p s (map (Chunk n) cs)) = fullText i @ received cs
    \<and> history (run p s (map (Chunk n) cs)) = history s
    \<and> error (run p s (map (Chunk n) cs)) = error s
    \<and> isTranslating (run p s (map (Chunk n) cs)) = isTranslating s
    \<and> unhandled (run p s (map (Chunk n) cs)) = unhandled s"
  using assms
proof (induction cs arbitrary: s i)
  case Nil
  then show ?case by (simp add: run_def)
next
  case (Cons c cs)
  note sc = stream_chunk_shown [OF Cons.prems, of c]
  from Cons.IH [of "stream_chunk n c s" "i\<lparr> fullText := fullText i @ chunk_text c \<rparr>"] sc
  show ?case by (simp add: run_Cons)
qed

lemma performTranslation_started:
  assumes "trim text \<noteq> []"
  shows "streams (performTranslation text sLang tLang s) (next_stream s)
      = Some \<lparr> inv_text = text, inv_source = sLang, inv_target = tLang, fullText = [] \<rparr>"
    and "translatedText_state (performTranslation text sLang tLang s) = []"
    and "error (performTranslation text sLang tLang s) = None"
    and "isTranslating (performTranslation text sLang tLang s)"
  using assms by (simp_all add: performTranslation_def)


lemma next_stream_change [simp]:
  "next_stream (rerender old s) = next_stream s"
  "history (rerender old s) = history s"
  by (simp_all add: rerender_eq debounce_effect_def setTimeout_def clear_pending_def
      clearTimeout_def Let_def split: option.splits)

lemma mount_empty: "mount sample_platform Map.empty = Inr (App_init Map.empty)"
  by (simp add: mount_def loadHistory_def App_init_def debounce_effect_def clear_pending_def
      trim_def)

lemma stream_fail_settles:
  assumes "streams s n = Some i"
  shows "\<not> isTranslating (stream_fail n err s)"
    and "err_name e = Some (js ''AbortError'') \<Longrightarrow>
           error (stream_fail n (Value e) s) = error s"
    and "err_name e \<noteq> Some (js ''AbortError'') \<Longrightarrow>
           \<exists>m. error (stream_fail n (Value e) s) = Some m \<and> m \<noteq> []"
    and "error (stream_fail n Nullish s) = error s"
    and "unhandled (stream_fail n Nullish s) = unhandled s @ [TypeError]"
  using assms
  by (simp_all add: stream_fail_def or_default_def js_def
      split: option.splits thrown_value.splits)

text \<open>
  Claim C6. After a change \<open>e\<close> that leaves a non-empty trimmed input, let the quiet
  period pass and let the stream of the invocation deliver the elements \<open>cs\<close>. After the
  first \<open>k\<close> elements the output text is the concatenation of their texts, for every
  \<open>k\<close>. When the stream ends, \<open>saveToHistory\<close> is called with the input text, the
  concatenation of all the texts and the source and target language the state had after
  \<open>e\<close>, on the history as it was.
\<close>

theorem streamed_output_and_history:
  assumes "timer_inv s0" and "changes s0 e" and "trim (inputText (step p s0 e)) \<noteq> []"
  shows "let s = step p s0 e; n = next_stream s;
             started = step p s (Elapse 800);
             mid = run p started (map (Chunk n) cs)
         in (\<forall>k \<le> length cs.
               translatedText_state (run p started (map (Chunk n) (take k cs)))
                 = received (take k cs))
          \<and> step p mid (StreamEnd n uuid tnow)
              = (saveToHistory p (inputText s) (received cs) (sourceLang s) (targetLang s)
                   uuid tnow mid)
                  \<lparr> isTranslating := False, streams := (streams mid)(n := None) \<rparr>
          \<and> history mid = history s0"
proof -
  let ?s = "step p s0 e"
  let ?n = "next_stream ?s"
  let ?i = "\<lparr> inv_text = inputText ?s, inv_source = sourceLang ?s, inv_target = targetLang ?s,
              fullText = [] \<rparr>"
  let ?base = "?s\<lparr> clock := clock ?s + 800, timers := [] \<rparr>"
  let ?started = "elapse 800 ?s"
  note st = step_change [OF assms(1,2), of p]
  have started: "?started = performTranslation (inputText ?s) (sourceLang ?s) (targetLang ?s) ?base"
    by (rule elapse_armed_fire [OF st(1) assms(3)])
  have i: "streams ?started ?n = Some ?i" and shown: "translatedText_state ?started = fullText ?i"
    using performTranslation_started [OF assms(3), of "sourceLang ?s" "targetLang ?s" ?base]
    by (simp_all add: started)
  have hist: "history ?s = history s0"
    using assms(2) by (cases e) (simp_all add: rerender_eq debounce_effect_def setTimeout_def
        clear_pending_def clearTimeout_def Let_def split: option.splits)
  note rc = run_chunks [OF i shown, of p]
  have "translatedText_state (run p ?started (map (Chunk ?n) (take k cs))) = received (take k cs)"
    for k
    using rc [of "take k cs"] by simp
  moreover have "stream_end p ?n uuid tnow (run p ?started (map (Chunk ?n) cs))
      = (saveToHistory p (inputText ?s) (received cs) (sourceLang ?s) (targetLang ?s)
           uuid tnow (run p ?started (map (Chunk ?n) cs)))
          \<lparr> isTranslating := False,
            streams := (streams (run p ?started (map (Chunk ?n) cs)))(?n := None) \<rparr>"
    using rc [of cs] by (simp add: stream_end_def)
  moreover have "history (run p ?started (map (Chunk ?n) cs)) = history s0"
    using rc [of cs] hist by (simp add: started)
  ultimately show ?thesis
    unfolding Let_def step.simps by blast
qed

theorem streamed_output_and_history_witness:
  "let p = sample_platform; s0 = App_init Map.empty; e = ChangeInput (js ''Hello'');
       final = run p s0 [e, Elapse 800, Chunk 0 (Some (js ''Hola'')),
                         StreamEnd 0 (js ''u-1'') 1700]
   in mount p Map.empty = Inr s0 \<and> sourceLang s0 = js ''auto'' \<and> targetLang s0 = js ''es''
      \<and> timer_inv s0 \<and> changes s0 e \<and> trim (inputText (step p s0 e)) \<noteq> []
      \<and> translatedText_state final = js ''Hola''
      \<and> history final = [\<lparr> translatedText = js ''Hola'', detectedLanguage = None,
                              sourceLanguage = js ''auto'', targetLanguage = js ''es'',
                              item_id = js ''u-1'', timestamp = 1700 \<rparr>]
      \<and> \<not> isTranslating final"
proof -
  let ?p = sample_platform
  let ?s0 = "App_init Map.empty"
  let ?e = "ChangeInput (js ''Hello'')"
  have pre: "timer_inv ?s0" "changes ?s0 ?e" "trim (inputText (step ?p ?s0 ?e)) \<noteq> []"
    by (simp_all add: timer_inv_App_init) (simp_all add: App_init_def js_def trim_def
        is_white_space_def)
  have n: "next_stream (step ?p ?s0 ?e) = 0" "inputText (step ?p ?s0 ?e) = js ''Hello''"
    "sourceLang (step ?p ?s0 ?e) = js ''auto''" "targetLang (step ?p ?s0 ?e) = js ''es''"
    "history ?s0 = []"
    by (simp_all add: App_init_def)
  note th = streamed_output_and_history [OF pre, where cs = "[Some (js ''Hola'')]"
      and uuid = "js ''u-1''" and tnow = 1700]
  from th have shown: "translatedText_state
      (run ?p (step ?p (step ?p ?s0 ?e) (Elapse 800)) [Chunk 0 (Some (js ''Hola''))]) = js ''Hola''"
    unfolding Let_def n by (auto simp: chunk_text_def dest: spec [of _ 1])
  from th have fin: "run ?p ?s0 [?e, Elapse 800, Chunk 0 (Some (js ''Hola'')),
        StreamEnd 0 (js ''u-1'') 1700]
      = (saveToHistory ?p (js ''Hello'') (js ''Hola'') (js ''auto'') (js ''es'') (js ''u-1'') 1700
           (run ?p (step ?p (step ?p ?s0 ?e) (Elapse 800)) [Chunk 0 (Some (js ''Hola''))]))
          \<lparr> isTranslating := False,
            streams := (streams (run ?p (step ?p (step ?p ?s0 ?e) (Elapse 800))
                                   [Chunk 0 (Some (js ''Hola''))]))(0 := None) \<rparr>"
    and hist: "history (run ?p (step ?p (step ?p ?s0 ?e) (Elapse 800))
        [Chunk 0 (Some (js ''Hola''))]) = []"
    unfolding Let_def n by (simp_all add: chunk_text_def run_def)
  show ?thesis
    unfolding Let_def fin
    using pre mount_empty shown hist
    by (simp add: history_saveToHistory suppressed_def)
      (simp add: App_init_def js_def trim_def is_white_space_def)
qed

text \<open>
  A call that starts after a change \<open>e\<close>, receives the elements \<open>cs\<close> and then fails
  with \<open>err\<close> ends with the in-flight flag cleared. When \<open>err\<close> is a value named
  \<open>AbortError\<close> the error state is unset, and when it is any other value that is neither
  \<open>null\<close> nor \<open>undefined\<close> the error state holds a non-empty message. When \<open>err\<close> is
  \<open>null\<close> or \<open>undefined\<close> the error state is unset and a \<open>TypeError\<close> goes
  unhandled.
\<close>

lemma failed_call_outcome:
  assumes "timer_inv s0" and "changes s0 e" and "trim (inputText (step p s0 e)) \<noteq> []"
  shows "let s = step p s0 e; n = next_stream s;
             started = step p s (Elapse 800);
             failed = run p started (map (Chunk n) cs @ [StreamFail n err])
         in \<not> isTranslating failed
          \<and> (\<forall>x. err = Value x \<and> err_name x = Some (js ''AbortError'') \<longrightarrow> error failed = None)
          \<and> (\<forall>x. err = Value x \<and> err_name x \<noteq> Some (js ''AbortError'') \<longrightarrow>
                (\<exists>m. error failed = Some m \<and> m \<noteq> []))
          \<and> (err = Nullish \<longrightarrow>
                error failed = None \<and> unhandled failed = unhandled s0 @ [TypeError])"
proof -
  let ?s = "step p s0 e"
  let ?n = "next_stream ?s"
  let ?i = "\<lparr> inv_text = inputText ?s, inv_source = sourceLang ?s, inv_target = targetLang ?s,
              fullText = [] \<rparr>"
  let ?base = "?s\<lparr> clock := clock ?s + 800, timers := [] \<rparr>"
  let ?started = "elapse 800 ?s"
  let ?mid = "run p ?started (map (Chunk ?n) cs)"
  note st = step_change [OF assms(1,2), of p]
  have started: "?started = performTranslation (inputText ?s) (sourceLang ?s) (targetLang ?s) ?base"
    by (rule elapse_armed_fire [OF st(1) assms(3)])
  note pt = performTranslation_started [OF assms(3), of "sourceLang ?s" "targetLang ?s" ?base]
  have i: "streams ?started ?n = Some ?i" and shown: "translatedText_state ?started = fullText ?i"
    using pt by (simp_all add: started)
  have err0: "error ?started = None"
    using pt by (simp add: started)
  have "unhandled ?s = unhandled s0"
    using assms(2) by (cases e) (simp_all add: rerender_eq debounce_effect_def setTimeout_def
        clear_pending_def clearTimeout_def Let_def split: option.splits)
  then have un0: "unhandled ?started = unhandled s0"
    unfolding started by (simp add: performTranslation_def)
  note rc = run_chunks [OF i shown, of p cs]
  from rc have mid: "streams ?mid ?n = Some (?i\<lparr> fullText := fullText ?i @ received cs \<rparr>)"
    and err: "error ?mid = None" and un: "unhandled ?mid = unhandled s0"
    by (simp_all add: err0 un0)
  have fin: "run p ?started (map (Chunk ?n) cs @ [StreamFail ?n err]) = stream_fail ?n err ?mid"
    by (simp add: run_append) (simp add: run_def)
  note a = stream_fail_settles [OF mid]
  let ?failed = "stream_fail ?n err ?mid"
  have c1: "\<not> isTranslating ?failed"
    by (rule a(1))
  have c2: "\<forall>x. err = Value x \<and> err_name x = Some (js ''AbortError'') \<longrightarrow> error ?failed = None"
  proof (intro allI impI, elim conjE)
    fix x
    assume x: "err = Value x" "err_name x = Some (js ''AbortError'')"
    show "error ?failed = None"
      unfolding x(1) a(2) [OF x(2)] by (rule err)
  qed
  have c3: "\<forall>x. err = Value x \<and> err_name x \<noteq> Some (js ''AbortError'') \<longrightarrow>
      (\<exists>m. error ?failed = Some m \<and> m \<noteq> [])"
  proof (intro allI impI, elim conjE)
    fix x
    assume x: "err = Value x" "err_name x \<noteq> Some (js ''AbortError'')"
    show "\<exists>m. error ?failed = Some m \<and> m \<noteq> []"
      unfolding x(1) by (rule a(3) [OF x(2)])
  qed
  have c4: "err = Nullish \<longrightarrow>
      error ?failed = None \<and> unhandled ?failed = unhandled s0 @ [TypeError]"
  proof (intro impI conjI)
    assume x: "err = Nullish"
    show "error ?failed = None"
      unfolding x a(4) by (rule err)
    show "unhandled ?failed = unhandled s0 @ [TypeError]"
      unfolding x a(5) un by (rule refl)
  qed
  show ?thesis
    unfolding Let_def step.simps fin
    by (rule conjI [OF c1 conjI [OF c2 conjI [OF c3 c4]]])
qed

text \<open>
  Claim C7 does not hold of the code. Type \<open>Hello\<close>, let the quiet period pass and let
  the call of the invocation reject with \<open>undefined\<close>: the in-flight flag is cleared, but
  no error message is set, and the \<open>TypeError\<close> of the unguarded \<open>err.name\<close> is left
  unhandled. The same call rejecting with an \<open>Error\<close> whose message is empty sets the
  default message.
\<close>

theorem nullish_rejection_sets_no_message:
  "error (run sample_platform sample_start
            [ChangeInput (js ''Hello''), Elapse 800, StreamFail 0 Nullish]) = None
   \<and> \<not> isTranslating (run sample_platform sample_start
            [ChangeInput (js ''Hello''), Elapse 800, StreamFail 0 Nullish])
   \<and> unhandled (run sample_platform sample_start
            [ChangeInput (js ''Hello''), Elapse 800, StreamFail 0 Nullish]) = [TypeError]
   \<and> error (run sample_platform sample_start
            [ChangeInput (js ''Hello''), Elapse 800,
             StreamFail 0 (Value \<lparr> err_name = Some (js ''Error''),
                                  err_message = Some (js '''') \<rparr>)])
       = Some (js ''Translation failed. Please try again.'')"
  by (simp add: machine_defs sample_start_def stream_prompt_def)

section \<open>Properties of the swap\<close>

text \<open>The handler alone, before React renders again.\<close>

lemma handleSwapLanguages_eq:
  "(sourceLang s = js ''auto'' \<longrightarrow> handleSwapLanguages s = s) \<and>
   (sourceLang s \<noteq> js ''auto'' \<longrightarrow>
      handleSwapLanguages s =
        s\<lparr> sourceLang := targetLang s, targetLang := sourceLang s,
            inputText := translatedText_state s, translatedText_state := inputText s \<rparr>)"
  by (simp add: handleSwapLanguages_def Let_def)

text \<open>
  Claim C9 does not hold of the code as stated. The swap the component performs is the
  handler followed by the debounce effect, which runs again because the input text or the
  languages changed. With source language \<open>en\<close>, input \<open>Hi\<close> and an output that is
  still empty, the swap makes the input empty, and the effect then clears the output:
  the output is not the old input.
\<close>

theorem swap_blank_output_not_exchanged:
  "sourceLang (run sample_platform sample_start
                 [ChangeSource (js ''en''), ChangeInput (js ''Hi'')]) = js ''en''
   \<and> js ''en'' \<noteq> js ''auto''
   \<and> inputText (run sample_platform sample_start
                    [ChangeSource (js ''en''), ChangeInput (js ''Hi'')]) = js ''Hi''
   \<and> translatedText_state (run sample_platform sample_start
                    [ChangeSource (js ''en''), ChangeInput (js ''Hi'')]) = []
   \<and> inputText (run sample_platform sample_start
                    [ChangeSource (js ''en''), ChangeInput (js ''Hi''), Swap]) = []
   \<and> translatedText_state (run sample_platform sample_start
                    [ChangeSource (js ''en''), ChangeInput (js ''Hi''), Swap]) = []
   \<and> translatedText_state (run sample_platform sample_start
                    [ChangeSource (js ''en''), ChangeInput (js ''Hi''), Swap])
       \<noteq> inputText (run sample_platform sample_start
                    [ChangeSource (js ''en''), ChangeInput (js ''Hi'')])"
  by (simp add: machine_defs sample_start_def handleSwapLanguages_def)

text \<open>
  Claim C9, amended. The swap changes nothing when the source language is \<open>auto\<close>. For
  every other source language it exchanges the source and target language codes and makes
  the old output text the input text; when the old output text is not empty or
  whitespace-only it makes, in the same step, the old input text the output text and
  leaves the in-flight flag as it was. The error state, the history, the calls issued and
  the running invocations are as before.
\<close>

theorem swap_exchanges:
  "(sourceLang s = js ''auto'' \<longrightarrow> step p s Swap = s)
   \<and> (sourceLang s \<noteq> js ''auto'' \<longrightarrow>
        sourceLang (step p s Swap) = targetLang s
      \<and> targetLang (step p s Swap) = sourceLang s
      \<and> inputText (step p s Swap) = translatedText_state s
      \<and> (trim (translatedText_state s) \<noteq> [] \<longrightarrow>
           translatedText_state (step p s Swap) = inputText s
         \<and> isTranslating (step p s Swap) = isTranslating s)
      \<and> error (step p s Swap) = error s
      \<and> history (step p s Swap) = history s
      \<and> calls (step p s Swap) = calls s
      \<and> streams (step p s Swap) = streams s)"
proof (intro conjI impI)
  assume "sourceLang s = js ''auto''"
  then show "step p s Swap = s"
    by (simp add: handleSwapLanguages_def rerender_eq)
next
  assume na: "sourceLang s \<noteq> js ''auto''"
  let ?h = "s\<lparr> sourceLang := targetLang s, targetLang := sourceLang s,
                inputText := translatedText_state s, translatedText_state := inputText s \<rparr>"
  have h: "handleSwapLanguages s = ?h"
    using na by (simp add: handleSwapLanguages_def Let_def)
  have eff: "translatedText_state (debounce_effect ?h) = inputText s
      \<and> isTranslating (debounce_effect ?h) = isTranslating s"
    if "trim (translatedText_state s) \<noteq> []"
    using that by (simp add: debounce_effect_def setTimeout_def clear_pending_def
        clearTimeout_def Let_def split: option.splits)
  have rest: "error (debounce_effect ?h) = error s \<and> history (debounce_effect ?h) = history s
      \<and> streams (debounce_effect ?h) = streams s"
    by (simp add: debounce_effect_def setTimeout_def clear_pending_def
        clearTimeout_def Let_def split: option.splits)
  show "sourceLang (step p s Swap) = targetLang s" "targetLang (step p s Swap) = sourceLang s"
    "inputText (step p s Swap) = translatedText_state s"
    by (simp_all add: h)
  show "error (step p s Swap) = error s" "history (step p s Swap) = history s"
    "calls (step p s Swap) = calls s" "streams (step p s Swap) = streams s"
    using rest by (simp_all add: h rerender_eq)
  assume "trim (translatedText_state s) \<noteq> []"
  from eff [OF this]
  show "translatedText_state (step p s Swap) = inputText s"
    "isTranslating (step p s Swap) = isTranslating s"
    by (simp_all add: h rerender_eq)
qed

theorem swap_exchanges_witness:
  "let p = sample_platform;
       s = run p sample_start
             [ChangeSource (js ''en''), ChangeInput (js ''Hello''), Elapse 800,
              Chunk 0 (Some (js ''Hola'')), StreamEnd 0 (js ''u-1'') 1700]
   in sourceLang sample_start = js ''auto'' \<and> step p sample_start Swap = sample_start
      \<and> sourceLang s = js ''en'' \<and> js ''en'' \<noteq> js ''auto'' \<and> targetLang s = js ''es''
      \<and> inputText s = js ''Hello'' \<and> translatedText_state s = js ''Hola''
      \<and> trim (js ''Hola'') \<noteq> []
      \<and> sourceLang (step p s Swap) = js ''es'' \<and> targetLang (step p s Swap) = js ''en''
      \<and> inputText (step p s Swap) = js ''Hola''
      \<and> translatedText_state (step p s Swap) = js ''Hello''"
proof -
  define s where "s = run sample_platform sample_start
      [ChangeSource (js ''en''), ChangeInput (js ''Hello''), Elapse 800,
       Chunk 0 (Some (js ''Hola'')), StreamEnd 0 (js ''u-1'') 1700]"
  have a: "sourceLang sample_start = js ''auto''"
    by (simp add: sample_start_def App_init_def)
  have s: "sourceLang s = js ''en''" "targetLang s = js ''es''" "inputText s = js ''Hello''"
    "translatedText_state s = js ''Hola''"
    unfolding s_def by (simp_all add: machine_defs sample_start_def stream_prompt_def)
  have ne: "js ''en'' \<noteq> js ''auto''" "trim (js ''Hola'') \<noteq> []"
    by (simp_all add: js_def trim_def is_white_space_def)
  note A = swap_exchanges [of sample_start sample_platform, THEN conjunct1, THEN mp, OF a]
  have na: "sourceLang s \<noteq> js ''auto''"
    unfolding s(1) by (rule ne(1))
  have nb: "trim (translatedText_state s) \<noteq> []"
    unfolding s(4) by (rule ne(2))
  note B = swap_exchanges [of s sample_platform, THEN conjunct2, THEN mp, OF na]
  note B4 = B [THEN conjunct2, THEN conjunct2, THEN conjunct2, THEN conjunct1, THEN mp, OF nb,
      THEN conjunct1]
  have "sourceLang (step sample_platform s Swap) = js ''es''"
    "targetLang (step sample_platform s Swap) = js ''en''"
    "inputText (step sample_platform s Swap) = js ''Hola''"
    "translatedText_state (step sample_platform s Swap) = js ''Hello''"
    using B [THEN conjunct1] B [THEN conjunct2, THEN conjunct1]
      B [THEN conjunct2, THEN conjunct2, THEN conjunct1] B4
    by (simp_all only: s)
  with a A s ne show ?thesis
    unfolding Let_def s_def [symmetric] by (intro conjI)
qed

section \<open>Overlapping invocations\<close>

text \<open>
  Claim C1 does not hold of the code. Type \<open>a\<close>, let the quiet period pass, receive
  \<open>X\<close> for invocation 0; type \<open>ab\<close>, let the quiet period pass, receive \<open>Y\<close> for
  invocation 1. A further element \<open>Z\<close> of invocation 0 then replaces the output \<open>Y\<close>
  by \<open>XZ\<close>; the end of invocation 0 clears the in-flight flag while invocation 1 is
  still running; and a failure of invocation 0 sets the error state that stays while
  invocation 1 goes on. \<open>translationIdRef\<close> is never read or written.
\<close>

theorem stale_stream_overwrites:
  "let p = sample_platform;
       s = run p (App_init Map.empty)
             [ChangeInput (js ''a''), Elapse 800, Chunk 0 (Some (js ''X'')),
              ChangeInput (js ''ab''), Elapse 800, Chunk 1 (Some (js ''Y''))]
   in map call_text (calls s) = [js ''a'', js ''ab'']
      \<and> inputText s = js ''ab''
      \<and> translatedText_state s = js ''Y''
      \<and> translatedText_state (step p s (Chunk 0 (Some (js ''Z'')))) = js ''XZ''
      \<and> isTranslating s
      \<and> \<not> isTranslating (step p s (StreamEnd 0 (js ''u-1'') 1))
      \<and> streams (step p s (StreamEnd 0 (js ''u-1'') 1)) 1 \<noteq> None
      \<and> error (step p (step p s (StreamFail 0 (Value \<lparr> err_name = Some (js ''Error''),
                                                 err_message = Some (js ''network'') \<rparr>)))
                 (Chunk 1 (Some (js ''Z'')))) = Some (js ''network'')"
  by (simp add: machine_defs stream_prompt_def)


section \<open>Properties of the translation client\<close>

lemma length_sample_stored: "length sample_stored = 1103"
  by (simp add: sample_stored_def js_def)

lemma sample_stored_neq:
  "length t \<noteq> 1103 \<Longrightarrow> t \<noteq> sample_stored"
  "length t \<noteq> 1103 \<Longrightarrow> sample_stored \<noteq> t"
  using length_sample_stored by auto

lemma sample_parse_simps:
  "sample_parse (js ''{}'') = Some (JObject [])"
  "sample_parse (js ''null'') = Some JNull"
  "sample_parse (js ''Hola'') = None"
  "sample_parse (js ''{not json'') = None"
  "sample_parse sample_stored = Some (json_of_items sample_entries)"
  \<open>sample_parse (js ''{"translatedText":"Hola"}'')
     = Some (JObject [(js ''translatedText'', JString (js ''Hola''))])\<close>
  by (simp_all add: sample_parse_def sample_stored_neq js_def)

text \<open>
  Claim C8 does not hold of the code as stated: when the response carries no text,
  \<open>translateText\<close> parses \<open>{}\<close> and returns a result whose \<open>translatedText\<close> is
  missing.
\<close>

theorem translateText_missing_translatedText:
  "translateText sample_platform no_text_service (js ''Hello'') (js ''auto'') (js ''es'')
     = Inr \<lparr> translatedText = None, detectedLanguage = None,
             sourceLanguage = js ''auto'', targetLanguage = js ''es'' \<rparr>"
  by (simp add: translateText_def no_text_service_def or_default_def sample_platform_def
      sample_parse_simps get_prop_def)

text \<open>
  Claim C8, amended. \<open>translateText\<close> fails when the service call fails, when the
  payload (the response text, or \<open>{}\<close> when the text is absent or empty) is not JSON, and
  when it parses to \<open>null\<close>. Any other parsed payload is returned without a check
  against the schema: the result's \<open>translatedText\<close> is the payload's property of that
  name as found, a string when the payload matches the schema and missing when the
  payload has no such property.
\<close>

theorem translateText_outcomes:
  "(generateContent (translate_prompt text sLang tLang) = Fails e \<longrightarrow>
      translateText p generateContent text sLang tLang = Inl (Rejected e))
   \<and> (generateContent (translate_prompt text sLang tLang) = Response t \<longrightarrow>
       (JSON_parse p (or_default t (js ''{}'')) = None \<longrightarrow>
          translateText p generateContent text sLang tLang = Inl SyntaxError)
     \<and> (JSON_parse p (or_default t (js ''{}'')) = Some JNull \<longrightarrow>
          translateText p generateContent text sLang tLang = Inl TypeError)
     \<and> (JSON_parse p (or_default t (js ''{}'')) = Some v \<and> v \<noteq> JNull \<longrightarrow>
          translateText p generateContent text sLang tLang
            = Inr \<lparr> translatedText = get_prop v (js ''translatedText''),
                    detectedLanguage = get_prop v (js ''detectedLanguage''),
                    sourceLanguage = sLang, targetLanguage = tLang \<rparr>)
     \<and> (JSON_parse p (or_default t (js ''{}'')) = Some v \<and> matches_schema v \<longrightarrow>
          (\<exists>r x. translateText p generateContent text sLang tLang = Inr r
                 \<and> translatedText r = Some (JString x))))"
  by (cases v) (auto simp: translateText_def matches_schema_def get_prop_def
      split: option.splits json.splits)

theorem translateText_outcomes_witness:
  "translateText sample_platform failing_service (js ''Hello'') (js ''auto'') (js ''es'')
     = Inl (Rejected (Value \<lparr> err_name = Some (js ''Error''),
                              err_message = Some (js ''network'') \<rparr>))
   \<and> JSON_parse sample_platform (or_default (Some (js ''Hola'')) (js ''{}'')) = None
   \<and> translateText sample_platform garbled_service (js ''Hello'') (js ''auto'') (js ''es'')
       = Inl SyntaxError
   \<and> JSON_parse sample_platform (or_default (Some (js ''null'')) (js ''{}'')) = Some JNull
   \<and> translateText sample_platform null_service (js ''Hello'') (js ''auto'') (js ''es'')
       = Inl TypeError
   \<and> JSON_parse sample_platform (or_default None (js ''{}'')) = Some (JObject [])
   \<and> translateText sample_platform no_text_service (js ''Hello'') (js ''auto'') (js ''es'')
       = Inr \<lparr> translatedText = None, detectedLanguage = None,
               sourceLanguage = js ''auto'', targetLanguage = js ''es'' \<rparr>
   \<and> matches_schema (JObject [(js ''translatedText'', JString (js ''Hola''))])
   \<and> translateText sample_platform hola_service (js ''Hello'') (js ''auto'') (js ''es'')
       = Inr \<lparr> translatedText = Some (JString (js ''Hola'')), detectedLanguage = None,
               sourceLanguage = js ''auto'', targetLanguage = js ''es'' \<rparr>"
proof -
  have p: "JSON_parse sample_platform = sample_parse"
    by (simp add: sample_platform_def)
  have k: "js ''translatedText'' \<noteq> js ''detectedLanguage''"
    "js ''detectedLanguage'' \<noteq> js ''translatedText''"
    "js ''null'' \<noteq> []" "js ''Hola'' \<noteq> []"
    \<open>js ''{"translatedText":"Hola"}'' \<noteq> []\<close>
    by (simp_all add: js_def)
  note th = translateText_outcomes [where p = sample_platform and ?text = "js ''Hello''"
      and sLang = "js ''auto''" and tLang = "js ''es''"]
  from th [where generateContent = failing_service
        and e = "Value \<lparr> err_name = Some (js ''Error''), err_message = Some (js ''network'') \<rparr>"]
    th [where generateContent = garbled_service and t = "Some (js ''Hola'')"]
    th [where generateContent = null_service and t = "Some (js ''null'')"]
    th [where generateContent = no_text_service and t = None and v = "JObject []"]
    th [where generateContent = hola_service and t = \<open>Some (js ''{"translatedText":"Hola"}'')\<close>
        and v = "JObject [(js ''translatedText'', JString (js ''Hola''))]"]
  show ?thesis
    by (simp add: p k sample_parse_simps or_default_def failing_service_def garbled_service_def
        null_service_def no_text_service_def hola_service_def matches_schema_def get_prop_def)
qed

section \<open>Properties of loading the history\<close>

lemma item_of_json_inverse: "item_of_json (json_of_item h) = Some h"
  by (cases h; cases "detectedLanguage h")
    (simp_all add: item_of_json_def json_of_item_def get_prop_def js_def)

lemma items_of_jsons_inverse: "items_of_jsons (map json_of_item hs) = Some hs"
  by (induction hs) (simp_all add: item_of_json_inverse)

lemma items_of_json_inverse: "items_of_json (json_of_items hs) = Some hs"
  by (simp add: items_of_json_def json_of_items_def items_of_jsons_inverse)

lemma idle_debounce_effect:
  "inputText s = [] \<Longrightarrow> timers s = [] \<Longrightarrow> translatedText_state s = [] \<Longrightarrow> \<not> isTranslating s
     \<Longrightarrow> \<not> cleanup s \<Longrightarrow> debounce_effect s = s"
  by (cases s) (simp add: debounce_effect_def clear_pending_def clearTimeout_def trim_def
      split: option.splits)

text \<open>
  Claim C10. Mounting with no stored value under the history key, or with the empty
  string there, leaves the initial state, whose history is empty. A stored text that
  does not parse is logged and leaves the history empty; nothing is raised. A stored text
  that parses to an array of history entries makes exactly those entries the history, in
  the same order and without truncation, so more than 10 stored entries give a history
  longer than 10. The JSON form of any list of entries is such an array.
\<close>

theorem mount_loads_history:
  "(stored history_key = None \<or> stored history_key = Some [] \<longrightarrow>
      mount p stored = Inr (App_init stored))
   \<and> (stored history_key = Some saved \<and> saved \<noteq> [] \<and> JSON_parse p saved = None \<longrightarrow>
        mount p stored
          = Inr ((App_init stored)\<lparr> console := [js ''Failed to load history''] \<rparr>))
   \<and> (stored history_key = Some saved \<and> saved \<noteq> [] \<and> JSON_parse p saved = Some v
        \<and> items_of_json v = Some items \<longrightarrow>
        mount p stored = Inr ((App_init stored)\<lparr> history := items \<rparr>))
   \<and> items_of_json (json_of_items items) = Some items
   \<and> history (App_init stored) = []"
proof -
  have idle: "debounce_effect (App_init stored) = App_init stored"
    "debounce_effect ((App_init stored)\<lparr> console := c \<rparr>) = (App_init stored)\<lparr> console := c \<rparr>"
    "debounce_effect ((App_init stored)\<lparr> history := h \<rparr>) = (App_init stored)\<lparr> history := h \<rparr>"
    for c h
    by (rule idle_debounce_effect; simp add: App_init_def)+
  have st: "localStorage (App_init stored) = stored" "console (App_init stored) = []"
    "history (App_init stored) = []"
    by (simp_all add: App_init_def)
  show ?thesis
    by (auto simp: mount_def loadHistory_def st idle items_of_json_inverse)
qed

theorem mount_loads_history_witness:
  "mount sample_platform Map.empty = Inr (App_init Map.empty)
   \<and> js ''{not json'' \<noteq> [] \<and> JSON_parse sample_platform (js ''{not json'') = None
   \<and> mount sample_platform [history_key \<mapsto> js ''{not json'']
       = Inr ((App_init [history_key \<mapsto> js ''{not json''])
                \<lparr> console := [js ''Failed to load history''] \<rparr>)
   \<and> sample_stored \<noteq> []
   \<and> JSON_parse sample_platform sample_stored = Some (json_of_items sample_entries)
   \<and> mount sample_platform [history_key \<mapsto> sample_stored]
       = Inr ((App_init [history_key \<mapsto> sample_stored])\<lparr> history := sample_entries \<rparr>)
   \<and> length sample_entries = 11"
proof -
  have p: "JSON_parse sample_platform = sample_parse"
    by (simp add: sample_platform_def)
  have ne: "sample_stored \<noteq> []" "js ''{not json'' \<noteq> []"
    using length_sample_stored by (auto simp: js_def)
  from mount_loads_history [where p = sample_platform and stored = Map.empty]
    mount_loads_history [where p = sample_platform
      and stored = "[history_key \<mapsto> js ''{not json'']" and saved = "js ''{not json''"]
    mount_loads_history [where p = sample_platform
      and stored = "[history_key \<mapsto> sample_stored]" and saved = sample_stored
      and v = "json_of_items sample_entries" and items = sample_entries]
    ne
  show ?thesis
    by (simp add: p sample_parse_simps) (simp add: sample_entries_def)
qed

end
